theory Spec2Isabelle
  imports Main
begin

section \<open>Project directory lookup (src/lib/core/projectDir.ts)\<close>

text \<open>
  \<open>fs.statSync\<close> either returns (the file exists) or throws an error object that
  carries a \<open>code\<close> such as \<open>ENOENT\<close> or \<open>EACCES\<close>.
\<close>

datatype stat_result = StatOk | StatErr string

text \<open>
  The error object built by \<open>getPath\<close>: its \<open>name\<close>, its \<open>message\<close>, and the
  \<open>oldAndBustedPath\<close> property, which is absent (\<open>None\<close>) until the handler assigns
  it the value of \<open>foundProjectDir\<close> (\<open>Some None\<close> when that is still \<open>null\<close>).
\<close>

record project_error =
  pe_name :: string
  pe_message :: string
  pe_oldAndBustedPath :: "string option option"

text \<open>
  What \<open>getPath\<close> reads from its surroundings: \<open>path.sep\<close>, \<open>process.cwd()\<close>,
  \<open>path.join\<close>, \<open>fs.statSync\<close>, the two file names of the \<open>Config\<close> object and
  the message catalogue (key and arguments, a \<open>null\<close> argument being \<open>None\<close>).
\<close>

record fs_env =
  path_sep :: char
  process_cwd :: string
  path_join :: "string \<Rightarrow> string \<Rightarrow> string"
  statSync :: "string \<Rightarrow> stat_result"
  getWorkspaceConfigFilename :: string
  getOldAndBustedWorkspaceConfigFilename :: string
  pd_getMessage :: "string \<Rightarrow> string option list \<Rightarrow> string"

text \<open>\<open>String.prototype.lastIndexOf\<close> for a one-character needle: \<open>-1\<close> when absent.\<close>

fun lastIndexOf :: "string \<Rightarrow> char \<Rightarrow> int" where
  "lastIndexOf [] c = - 1"
| "lastIndexOf (x # xs) c =
     (let r = lastIndexOf xs c
      in if 0 \<le> r then r + 1 else if x = c then 0 else - 1)"

text \<open>
  \<open>traverseForFile\<close> assigns the closed-over variable \<open>foundProjectDir\<close>; the model
  takes its current value and returns the new one. A stat error other than \<open>ENOENT\<close>
  falls out of the \<open>catch\<close> block without any assignment.
\<close>

function traverseForFile ::
  "fs_env \<Rightarrow> string option \<Rightarrow> string \<Rightarrow> string \<Rightarrow> project_error + string option" where
  "traverseForFile fs foundProjectDir workingDir file =
     (case statSync fs (path_join fs workingDir file) of
        StatOk \<Rightarrow> Inr (Some workingDir)
      | StatErr code \<Rightarrow>
          if code = ''ENOENT'' then
            if 0 < lastIndexOf workingDir (path_sep fs) then
              traverseForFile fs foundProjectDir
                (take (nat (lastIndexOf workingDir (path_sep fs))) workingDir) file
            else
              Inl \<lparr>pe_name = ''InvalidProjectWorkspace'',
                   pe_message = pd_getMessage fs ''InvalidProjectWorkspace'' [],
                   pe_oldAndBustedPath = None\<rparr>
          else Inr foundProjectDir)"
  by pat_completeness auto
termination
proof (relation "measure (\<lambda>(fs, found, workingDir, file). length workingDir)")
  show "wf (measure (\<lambda>(fs, found, workingDir, file). length workingDir))"
    by simp
next
  fix fs :: fs_env and foundProjectDir :: "string option"
    and workingDir fname :: string
  assume pos: "0 < lastIndexOf workingDir (path_sep fs)"
  have "lastIndexOf xs c < int (length xs)" for xs c
    by (induction xs) (auto simp: Let_def)
  then have "lastIndexOf workingDir (path_sep fs) < int (length workingDir)" .
  with pos have "nat (lastIndexOf workingDir (path_sep fs)) < length workingDir"
    by simp
  then show "((fs, foundProjectDir,
               take (nat (lastIndexOf workingDir (path_sep fs))) workingDir, fname),
              (fs, foundProjectDir, workingDir, fname))
             \<in> measure (\<lambda>(fs, found, workingDir, file). length workingDir)"
    by simp
qed

declare traverseForFile.simps [simp del]

text \<open>
  \<open>getPath\<close>: \<open>foundProjectDir\<close> starts as \<open>null\<close>. When the first traversal throws,
  nothing has been assigned, so the second traversal starts from \<open>null\<close> as well; when
  the second one returns, the original error is rethrown with its message replaced.
\<close>

definition getPath :: "fs_env \<Rightarrow> project_error + string option" where
  "getPath fs =
     (case traverseForFile fs None (process_cwd fs) (getWorkspaceConfigFilename fs) of
        Inr foundProjectDir \<Rightarrow> Inr foundProjectDir
      | Inl error \<Rightarrow>
          (case traverseForFile fs None (process_cwd fs)
                  (getOldAndBustedWorkspaceConfigFilename fs) of
             Inr foundProjectDir \<Rightarrow>
               Inl (error\<lparr>pe_message :=
                             pd_getMessage fs ''OldSfdxWorkspaceJsonPresent'' [foundProjectDir],
                          pe_oldAndBustedPath := Some foundProjectDir\<rparr>)
           | Inl ignore \<Rightarrow> Inl error))"

text \<open>
  The directories \<open>traverseForFile\<close> visits as long as every stat so far failed with
  \<open>ENOENT\<close>: the working directory, then each prefix cut at the last separator, while
  that separator is not at index 0.
\<close>

function candidateDirs :: "char \<Rightarrow> string \<Rightarrow> string list" where
  "candidateDirs sep workingDir =
     workingDir #
       (if 0 < lastIndexOf workingDir sep
        then candidateDirs sep (take (nat (lastIndexOf workingDir sep)) workingDir)
        else [])"
  by pat_completeness auto
termination
proof (relation "measure (\<lambda>(sep, workingDir). length workingDir)")
  show "wf (measure (\<lambda>(sep, workingDir). length workingDir))"
    by simp
next
  fix sep :: char and workingDir :: string
  assume pos: "0 < lastIndexOf workingDir sep"
  have "lastIndexOf xs c < int (length xs)" for xs c
    by (induction xs) (auto simp: Let_def)
  then have "lastIndexOf workingDir sep < int (length workingDir)" .
  with pos have "nat (lastIndexOf workingDir sep) < length workingDir"
    by simp
  then show "((sep, take (nat (lastIndexOf workingDir sep)) workingDir), (sep, workingDir))
             \<in> measure (\<lambda>(sep, workingDir). length workingDir)"
    by simp
qed

declare candidateDirs.simps [simp del]

section \<open>Source pull (src/lib/source/sourcePullApi.ts)\<close>

subsection \<open>Data\<close>

text \<open>The plain object a workspace element is turned into by \<open>toObject()\<close>.\<close>

record workspaceElementObj =
  we_state :: string
  we_fullName :: string
  we_type :: string
  we_filePath :: string

record obsoleteName =
  on_fullName :: string
  on_type :: string

record fileProperty =
  fp_type :: string
  fp_fullName :: string
  fp_fileName :: string

text \<open>
  The \<open>fileProperties\<close> field of a retrieve result, as far as the code tells values
  apart: nil (\<open>undefined\<close> or \<open>null\<close>), something that is not an array, or an array.
\<close>

datatype fileProps = FPNil | FPNotArray | FPArray "fileProperty list"

text \<open>
  An entry of the array which \<open>getDefinitionProperties\<close> returns is either one of the
  objects of \<open>result.fileProperties\<close> itself, given by its index in that array, or an
  object of its own. An entry of the first kind shows whatever \<open>_syncDownSource\<close> has
  written into that object by the time the entry is read.
\<close>

datatype definitionRef = SameObject nat | OtherObject fileProperty

text \<open>
  A retrieve result. \<open>success\<close> is the truthiness of the field; \<open>messages\<close> is
  \<open>None\<close> when the field is nil and \<open>Some ms\<close> when it holds a list (also an empty
  one). The result itself may be \<open>undefined\<close>: \<open>retrieveResult option\<close>.
\<close>

record retrieveResult =
  success :: bool
  status :: string
  messages :: "string list option"
  fileProperties :: fileProps

text \<open>
  The properties of an error object which this code reads or writes. A thrown value
  is such an object, a bare string, or \<open>undefined\<close>.
\<close>

record jsError =
  err_name :: string
  err_message :: string
  err_errorCode :: "string option"
  err_result :: "retrieveResult option"
  err_sourceConflictElements :: "workspaceElementObj list option"

datatype thrown = ThrownError jsError | ThrownString string | ThrownUndefined

record package =
  pkg_isEmpty :: bool
  pkg_version :: "string option"
  pkg_members :: "(string \<times> string) list"

text \<open>A manifest: \<open>{empty: true}\<close>, or an object with a \<open>file\<close>.\<close>

record manifest =
  mf_empty :: bool
  mf_file :: "string option"

text \<open>
  The options object of a pull. \<open>wait\<close> is \<open>None\<close> when \<open>isNaN(options.wait)\<close>
  holds; \<open>forceoverwrite\<close> and \<open>debug\<close> are the truthiness of the fields;
  \<open>retrievetargetdir\<close>, \<open>outputdir\<close>, \<open>manifest\<close> and \<open>packageXml\<close> are \<open>None\<close> when nil.
\<close>

record pull_options =
  wait :: "int option"
  forceoverwrite :: bool
  debug :: bool
  packageXml :: "string option"
  manifest :: "string option"
  unsupportedMimeTypes :: "string list"
  retrievetargetdir :: "string option"
  outputdir :: "string option"

text \<open>
  The options handed to the retrieve call: the three fields assigned here, and the
  remaining defaults of \<open>MdRetrieveApi.getDefaultOptions()\<close>.
\<close>

record retrieveOptions =
  ro_retrievetargetdir :: "string option"
  ro_unpackaged :: "string option"
  ro_wait :: "int option"
  ro_defaults :: "(string \<times> string) list"

text \<open>The result of one package: \<open>{ inboundFiles }\<close>.\<close>

record pullResult =
  inboundFiles :: "workspaceElementObj list option"

subsection \<open>Collaborators\<close>

text \<open>
  Every call that leaves this file is recorded as an event with its arguments. \<open>'g\<close> is
  the type of an \<open>AggregateSourceElements\<close> value.
\<close>

datatype 'g event =
    StatusApiCreate
  | DoStatus
  | GetLocalConflicts
  | GetRevisionsAsPackage "obsoleteName list"
  | SetActivePackage string
  | CreateOutputDir string
  | CreateManifestForMdapiPackage pull_options package
  | Retrieve retrieveOptions
  | GetDefinitionProperties fileProps
  | ProcessMdapiFileProperty 'g "string option" fileProperty "fileProperty list"
  | HandleObsoleteSource 'g string string
  | UpdateSource 'g "string option" bool "string list" bool
  | MaybeRefreshIndex "workspaceElementObj list"
  | GetSourceMembersFromResult "workspaceElementObj list"
  | UpdateSourceTracking
  | CleanupOutputDir "string option"
  | SetMaxRevisionCounterFromQuery

text \<open>
  The collaborators without effects: configuration values, message catalogues, path
  utilities, and the constructor and reader of the aggregate.
\<close>

record 'g config =
  defaultSrcWaitMinutes :: "int option"
  configSourceApiVersion :: "string option"
  getApiVersion :: string
  getDefaultOptions :: retrieveOptions
  getMessage :: "string \<Rightarrow> string"
  getRetrieveFailureMessage :: "retrieveResult \<Rightarrow> string"
  replaceForwardSlashes :: "string \<Rightarrow> string"
  newAggregateSourceElements :: 'g
  getAllWorkspaceElements :: "'g \<Rightarrow> workspaceElementObj list"

text \<open>
  The collaborators with effects (the org, the workspace, the file system, the revision
  file) act on a world \<open>'w\<close>: each takes its arguments and the world, and yields the
  world after the call together with either the error it threw or its return value.
  Operations that mutate the aggregate passed to them return the aggregate after the call;
  \<open>getRevisionsAsPackage\<close>, which pushes onto the array passed to it, returns that array
  beside the packages (in key order).
\<close>

record ('w, 'g) services =
  statusApiCreate :: "'w \<Rightarrow> (jsError + unit) \<times> 'w"
  doStatus :: "'w \<Rightarrow> (jsError + unit) \<times> 'w"
  getLocalConflicts :: "'w \<Rightarrow> (jsError + workspaceElementObj list) \<times> 'w"
  getRevisionsAsPackage ::
    "obsoleteName list \<Rightarrow> 'w \<Rightarrow> (jsError + (string \<times> package) list \<times> obsoleteName list) \<times> 'w"
  setActivePackage :: "string \<Rightarrow> 'w \<Rightarrow> (jsError + unit) \<times> 'w"
  createOutputDir :: "string \<Rightarrow> 'w \<Rightarrow> (jsError + string) \<times> 'w"
  cleanupOutputDir :: "string option \<Rightarrow> 'w \<Rightarrow> (jsError + unit) \<times> 'w"
  createManifestForMdapiPackage ::
    "pull_options \<Rightarrow> package \<Rightarrow> 'w \<Rightarrow> (jsError + manifest) \<times> 'w"
  retrieve :: "retrieveOptions \<Rightarrow> 'w \<Rightarrow> (jsError + retrieveResult option) \<times> 'w"
  getDefinitionProperties :: "fileProps \<Rightarrow> 'w \<Rightarrow> (jsError + definitionRef list) \<times> 'w"
  processMdapiFileProperty ::
    "'g \<Rightarrow> string option \<Rightarrow> fileProperty \<Rightarrow> fileProperty list \<Rightarrow> 'w \<Rightarrow> (jsError + 'g) \<times> 'w"
  handleObsoleteSource :: "'g \<Rightarrow> string \<Rightarrow> string \<Rightarrow> 'w \<Rightarrow> (jsError + 'g) \<times> 'w"
  updateSource ::
    "'g \<Rightarrow> string option \<Rightarrow> bool \<Rightarrow> string list \<Rightarrow> bool \<Rightarrow> 'w \<Rightarrow> (jsError + 'g) \<times> 'w"
  maybeRefreshIndex :: "workspaceElementObj list \<Rightarrow> 'w \<Rightarrow> (jsError + unit) \<times> 'w"
  getSourceMembersFromResult :: "workspaceElementObj list \<Rightarrow> 'w \<Rightarrow> (jsError + unit) \<times> 'w"
  updateSourceTracking :: "'w \<Rightarrow> (jsError + unit) \<times> 'w"
  setMaxRevisionCounterFromQuery :: "'w \<Rightarrow> (jsError + unit) \<times> 'w"

subsection \<open>Sequencing, exceptions and the call log\<close>

text \<open>
  A computation takes the call log so far and the world, and yields the log and world
  after it together with the value thrown (\<open>Inl\<close>) or returned (\<open>Inr\<close>).
\<close>

type_synonym ('w, 'g) pstate = "'g event list \<times> 'w"

type_synonym ('w, 'g, 'a) prog = "('w, 'g) pstate \<Rightarrow> (thrown + 'a) \<times> ('w, 'g) pstate"

definition ret :: "'a \<Rightarrow> ('w, 'g, 'a) prog" where
  "ret x = (\<lambda>s. (Inr x, s))"

definition throw :: "thrown \<Rightarrow> ('w, 'g, 'a) prog" where
  "throw e = (\<lambda>s. (Inl e, s))"

definition bnd :: "('w, 'g, 'a) prog \<Rightarrow> ('a \<Rightarrow> ('w, 'g, 'b) prog) \<Rightarrow> ('w, 'g, 'b) prog" where
  "bnd m f = (\<lambda>s. case m s of (Inl e, s') \<Rightarrow> (Inl e, s') | (Inr x, s') \<Rightarrow> f x s')"

text \<open>A call of a collaborator: logged, then run on the world.\<close>

definition call :: "'g event \<Rightarrow> ('w \<Rightarrow> (jsError + 'a) \<times> 'w) \<Rightarrow> ('w, 'g, 'a) prog" where
  "call ev f =
     (\<lambda>(tr, w). case f w of
        (Inl e, w') \<Rightarrow> (Inl (ThrownError e), (tr @ [ev], w'))
      | (Inr x, w') \<Rightarrow> (Inr x, (tr @ [ev], w')))"

text \<open>\<open>promise.catch(h)\<close>: the handler runs on the thrown value.\<close>

definition catchWith ::
  "('w, 'g, 'a) prog \<Rightarrow> (thrown \<Rightarrow> ('w, 'g, 'a) prog) \<Rightarrow> ('w, 'g, 'a) prog" where
  "catchWith m h = (\<lambda>s. case m s of (Inl e, s') \<Rightarrow> h e s' | (Inr x, s') \<Rightarrow> (Inr x, s'))"

text \<open>
  \<open>try { ... } finally { ... }\<close>: the finaliser runs after the block however it ended;
  if the finaliser throws, that value replaces the block's outcome.
\<close>

definition tryFinally :: "('w, 'g, 'a) prog \<Rightarrow> ('w, 'g, unit) prog \<Rightarrow> ('w, 'g, 'a) prog" where
  "tryFinally m fin =
     (\<lambda>s. case m s of
        (r, s1) \<Rightarrow> (case fin s1 of (Inl e, s2) \<Rightarrow> (Inl e, s2) | (Inr u, s2) \<Rightarrow> (r, s2)))"

text \<open>
  \<open>BBPromise.mapSeries\<close>: the iterator runs on one element after the other; the first
  rejection rejects the whole, and the later elements are not visited.
\<close>

fun mapSeries :: "('a \<Rightarrow> ('w, 'g, 'b) prog) \<Rightarrow> 'a list \<Rightarrow> ('w, 'g, 'b list) prog" where
  "mapSeries f [] = ret []"
| "mapSeries f (x # xs) = bnd (f x) (\<lambda>y. bnd (mapSeries f xs) (\<lambda>ys. ret (y # ys)))"

subsection \<open>The functions of \<open>MdapiPullApi\<close>\<close>

text \<open>\<open>_didRetrieveSucceed\<close>, lines 144 to 153.\<close>

definition isNil_fileProps :: "fileProps \<Rightarrow> bool" where
  "isNil_fileProps fps = (case fps of FPNil \<Rightarrow> True | _ \<Rightarrow> False)"

definition isArray :: "fileProps \<Rightarrow> bool" where
  "isArray fps = (case fps of FPArray xs \<Rightarrow> True | _ \<Rightarrow> False)"

definition didRetrieveSucceed :: "retrieveResult option \<Rightarrow> bool" where
  "didRetrieveSucceed res =
     (case res of
        None \<Rightarrow> False
      | Some r \<Rightarrow>
          success r \<and> status r = ''Succeeded'' \<and> messages r = None \<and>
          \<not> isNil_fileProps (fileProperties r) \<and> isArray (fileProperties r))"

text \<open>\<open>_processResults\<close>, lines 220 to 230.\<close>

definition processResults ::
  "'g config \<Rightarrow> retrieveResult option \<Rightarrow> workspaceElementObj list option
     \<Rightarrow> ('w, 'g, pullResult option) prog" where
  "processResults cfg res inbound =
     (case res of
        None \<Rightarrow> ret None
      | Some r \<Rightarrow>
          if didRetrieveSucceed res then ret (Some \<lparr>inboundFiles = inbound\<rparr>)
          else throw (ThrownError
                 \<lparr>err_name = ''RetrieveFailed'',
                  err_message = getRetrieveFailureMessage cfg r,
                  err_errorCode = None, err_result = None,
                  err_sourceConflictElements = None\<rparr>))"

text \<open>
  \<open>_checkForConflicts\<close>, lines 232 to 260. The handler of \<open>.catch\<close> throws the value
  of the assignment expression \<open>SfdxError.wrap(err).message = errorMessage\<close>, which is
  \<open>errorMessage\<close> itself; for a thrown value without a \<open>message\<close> property that is
  \<open>undefined\<close>. The function returns \<open>[]\<close> (here \<open>Some []\<close>) under \<open>forceoverwrite\<close> and
  \<open>undefined\<close> (here \<open>None\<close>) when the status reports no conflict.
\<close>

definition statusErrorMessage :: "'g config \<Rightarrow> thrown \<Rightarrow> thrown" where
  "statusErrorMessage cfg err =
     (case err of
        ThrownError e \<Rightarrow>
          if err_errorCode e = Some ''INVALID_TYPE''
          then ThrownString (getMessage cfg ''NonScratchOrgPull'')
          else ThrownString (err_message e)
      | ThrownString s \<Rightarrow> ThrownUndefined
      | ThrownUndefined \<Rightarrow> ThrownUndefined)"

definition checkForConflicts ::
  "'g config \<Rightarrow> ('w, 'g) services \<Rightarrow> pull_options
     \<Rightarrow> ('w, 'g, workspaceElementObj list option) prog" where
  "checkForConflicts cfg sv options =
     (if forceoverwrite options then ret (Some [])
      else
        bnd (call StatusApiCreate (statusApiCreate sv)) (\<lambda>statusApi.
        bnd (catchWith
               (bnd (call DoStatus (doStatus sv)) (\<lambda>u.
                  call GetLocalConflicts (getLocalConflicts sv)))
               (\<lambda>err. throw (statusErrorMessage cfg err))) (\<lambda>conflicts.
        if 0 < length conflicts then
          throw (ThrownError
            \<lparr>err_name = ''SourceConflict'',
             err_message = ''Conflicts found during sync down'',
             err_errorCode = None, err_result = None,
             err_sourceConflictElements = Some conflicts\<rparr>)
        else ret None)))"

text \<open>\<open>_createPackageManifest\<close>, lines 123 to 142.\<close>

definition createPackageManifest ::
  "'g config \<Rightarrow> ('w, 'g) services \<Rightarrow> pull_options \<Rightarrow> package \<Rightarrow> ('w, 'g, manifest) prog" where
  "createPackageManifest cfg sv options pkg =
     (if pkg_isEmpty pkg then ret \<lparr>mf_empty = True, mf_file = None\<rparr>
      else if packageXml options = None \<or> \<not> debug options then
        (let sourceApiVersion =
               (case configSourceApiVersion cfg of
                  Some v \<Rightarrow> v
                | None \<Rightarrow> getApiVersion cfg);
             pkg' = pkg\<lparr>pkg_version := Some sourceApiVersion\<rparr>
         in call (CreateManifestForMdapiPackage options pkg')
                 (createManifestForMdapiPackage sv options pkg'))
      else ret \<lparr>mf_empty = False, mf_file = packageXml options\<rparr>)"

text \<open>
  \<open>_syncDownSource\<close>, lines 180 to 218. The two \<open>forEach\<close> loops thread the aggregate
  which the workspace adapter mutates. The first loop writes the switched separators into
  the objects of \<open>result.fileProperties\<close> themselves, one object per round: the model
  carries the objects already visited (as they are now) beside those still to come, and
  each call of \<open>processMdapiFileProperty\<close> is handed the definition properties as they
  read at that moment.
\<close>

definition lookupDefinition :: "fileProperty list \<Rightarrow> definitionRef \<Rightarrow> fileProperty option" where
  "lookupDefinition current ref =
     (case ref of
        SameObject i \<Rightarrow> (if i < length current then Some (current ! i) else None)
      | OtherObject fp \<Rightarrow> Some fp)"

definition definitionsSeen :: "fileProperty list \<Rightarrow> definitionRef list \<Rightarrow> fileProperty list" where
  "definitionsSeen current refs = List.map_filter (lookupDefinition current) refs"

definition switchSeparators :: "'g config \<Rightarrow> fileProperty \<Rightarrow> fileProperty" where
  "switchSeparators cfg fp =
     fp\<lparr>fp_fullName := replaceForwardSlashes cfg (fp_fullName fp),
        fp_fileName := replaceForwardSlashes cfg (fp_fileName fp)\<rparr>"

fun processFileProperties ::
  "'g config \<Rightarrow> ('w, 'g) services \<Rightarrow> string option \<Rightarrow> definitionRef list
     \<Rightarrow> fileProperty list \<Rightarrow> fileProperty list \<Rightarrow> 'g \<Rightarrow> ('w, 'g, 'g) prog" where
  "processFileProperties cfg sv dir bundleFileProperties visited [] changedSourceElements =
     ret changedSourceElements"
| "processFileProperties cfg sv dir bundleFileProperties visited (fp # rest)
       changedSourceElements =
     (if fp_type fp = ''Package'' then
        processFileProperties cfg sv dir bundleFileProperties (visited @ [fp]) rest
          changedSourceElements
      else
        (let fp' = switchSeparators cfg fp;
             seen = definitionsSeen (visited @ fp' # rest) bundleFileProperties
         in bnd (call (ProcessMdapiFileProperty changedSourceElements dir fp' seen)
                   (processMdapiFileProperty sv changedSourceElements dir fp' seen))
              (processFileProperties cfg sv dir bundleFileProperties (visited @ [fp']) rest)))"

fun handleObsoleteNames ::
  "('w, 'g) services \<Rightarrow> obsoleteName list \<Rightarrow> 'g \<Rightarrow> ('w, 'g, 'g) prog" where
  "handleObsoleteNames sv [] changedSourceElements = ret changedSourceElements"
| "handleObsoleteNames sv (obsolete # rest) changedSourceElements =
     bnd (call (HandleObsoleteSource changedSourceElements (on_fullName obsolete) (on_type obsolete))
            (handleObsoleteSource sv changedSourceElements (on_fullName obsolete) (on_type obsolete)))
       (handleObsoleteNames sv rest)"

definition typeError :: thrown where
  "typeError = ThrownError
     \<lparr>err_name = ''TypeError'', err_message = [], err_errorCode = None,
      err_result = None, err_sourceConflictElements = None\<rparr>"

definition syncDownSource ::
  "'g config \<Rightarrow> ('w, 'g) services \<Rightarrow> obsoleteName list \<Rightarrow> retrieveResult option
     \<Rightarrow> pull_options \<Rightarrow> ('w, 'g, 'g) prog" where
  "syncDownSource cfg sv obsoleteNames res options =
     (case res of
        None \<Rightarrow> throw typeError
      | Some r \<Rightarrow>
          bnd (call (GetDefinitionProperties (fileProperties r))
                 (getDefinitionProperties sv (fileProperties r))) (\<lambda>bundleFileProperties.
          case fileProperties r of
            FPArray fps \<Rightarrow>
              bnd (processFileProperties cfg sv (retrievetargetdir options)
                     bundleFileProperties [] fps (newAggregateSourceElements cfg))
                (\<lambda>changedSourceElements.
              bnd (handleObsoleteNames sv obsoleteNames changedSourceElements)
                (\<lambda>changedSourceElements.
              call (UpdateSource changedSourceElements (manifest options) False
                      (unsupportedMimeTypes options) (forceoverwrite options))
                   (updateSource sv changedSourceElements (manifest options) False
                      (unsupportedMimeTypes options) (forceoverwrite options))))
          | FPNil \<Rightarrow> throw typeError
          | FPNotArray \<Rightarrow> throw typeError))"

text \<open>\<open>_postRetrieve\<close>, lines 155 to 178. \<open>inboundFiles\<close> stays \<open>undefined\<close> on the else path.\<close>

definition postRetrieve ::
  "'g config \<Rightarrow> ('w, 'g) services \<Rightarrow> obsoleteName list \<Rightarrow> retrieveResult option
     \<Rightarrow> pull_options \<Rightarrow> ('w, 'g, pullResult option) prog" where
  "postRetrieve cfg sv obsoleteNames res options =
     bnd (if didRetrieveSucceed res then
            bnd (syncDownSource cfg sv obsoleteNames res options) (\<lambda>changedSourceElements.
            bnd (ret (getAllWorkspaceElements cfg changedSourceElements)) (\<lambda>inbound.
            bnd (call (MaybeRefreshIndex inbound) (maybeRefreshIndex sv inbound)) (\<lambda>u.
            bnd (call (GetSourceMembersFromResult inbound)
                   (getSourceMembersFromResult sv inbound)) (\<lambda>u.
            bnd (call UpdateSourceTracking (updateSourceTracking sv)) (\<lambda>u.
            ret (Some inbound))))))
          else ret None)
       (\<lambda>inbound. processResults cfg res inbound)"

text \<open>
  \<open>_postRetrieve\<close> in two parts, for a caller that does not await it. A call of the
  \<open>async\<close> function runs up to its first \<open>await\<close> and hands back a promise; it never
  throws. When the result has succeeded, that first part is the whole synchronous run of
  \<open>_syncDownSource\<close>, up to and including the call of \<open>updateSource\<close>, and the promise
  waits for what that run produced; otherwise \<open>_processResults\<close> has already settled the
  promise. The second part is what runs once the promise is picked up again. Calls are
  atomic here and take place in the order in which the code invokes them.
\<close>

datatype 'g pending =
    Settled "thrown + pullResult option"
  | Applying "retrieveResult option" "thrown + 'g"

definition postRetrieveStart ::
  "'g config \<Rightarrow> ('w, 'g) services \<Rightarrow> obsoleteName list \<Rightarrow> retrieveResult option
     \<Rightarrow> pull_options \<Rightarrow> ('w, 'g, 'g pending) prog" where
  "postRetrieveStart cfg sv obsoleteNames res options =
     (if didRetrieveSucceed res then
        (\<lambda>s. case syncDownSource cfg sv obsoleteNames res options s of
               (r, s') \<Rightarrow> (Inr (Applying res r), s'))
      else
        (\<lambda>s. case processResults cfg res None s of
               (r, s') \<Rightarrow> (Inr (Settled r), s')))"

definition postRetrieveResume ::
  "'g config \<Rightarrow> ('w, 'g) services \<Rightarrow> 'g pending \<Rightarrow> ('w, 'g, pullResult option) prog" where
  "postRetrieveResume cfg sv p =
     (case p of
        Settled r \<Rightarrow> (\<lambda>s. (r, s))
      | Applying res (Inl e) \<Rightarrow> throw e
      | Applying res (Inr changedSourceElements) \<Rightarrow>
          bnd (ret (getAllWorkspaceElements cfg changedSourceElements)) (\<lambda>inbound.
          bnd (call (MaybeRefreshIndex inbound) (maybeRefreshIndex sv inbound)) (\<lambda>u.
          bnd (call (GetSourceMembersFromResult inbound)
                 (getSourceMembersFromResult sv inbound)) (\<lambda>u.
          bnd (call UpdateSourceTracking (updateSourceTracking sv)) (\<lambda>u.
          processResults cfg res (Some inbound))))))"

text \<open>
  \<open>doPull\<close>, lines 93 to 108: the result is left \<open>undefined\<close>, synthesized, or
  retrieved; a rejected retrieve is replaced by the \<open>result\<close> property of the error.
\<close>

definition thrown_result :: "thrown \<Rightarrow> retrieveResult option" where
  "thrown_result err = (case err of ThrownError e \<Rightarrow> err_result e | _ \<Rightarrow> None)"

definition retrieveOrSynthesize ::
  "'g config \<Rightarrow> ('w, 'g) services \<Rightarrow> obsoleteName list \<Rightarrow> pull_options \<Rightarrow> manifest
     \<Rightarrow> ('w, 'g, retrieveResult option) prog" where
  "retrieveOrSynthesize cfg sv obsoleteNames opts mf =
     (if mf_empty mf then
        (if 0 < length obsoleteNames then
           ret (Some \<lparr>success = True, status = ''Succeeded'', messages = None,
                      fileProperties = FPArray []\<rparr>)
         else ret None)
      else
        (let retrieveOptions = (getDefaultOptions cfg)
               \<lparr>ro_retrievetargetdir := retrievetargetdir opts,
                ro_unpackaged := mf_file mf,
                ro_wait := wait opts\<rparr>
         in catchWith (call (Retrieve retrieveOptions) (retrieve sv retrieveOptions))
              (\<lambda>err. ret (thrown_result err))))"

text \<open>
  The statements of the \<open>try\<close> block after the creation of the output directory, lines
  87 to 111, with the promise of line 111 followed to its end and the \<open>finally\<close> block
  left aside.
\<close>

definition tryBlock ::
  "'g config \<Rightarrow> ('w, 'g) services \<Rightarrow> obsoleteName list \<Rightarrow> pull_options \<Rightarrow> package
     \<Rightarrow> ('w, 'g, pullResult option) prog" where
  "tryBlock cfg sv obsoleteNames opts pkg =
     (let manifestOptions = opts\<lparr>outputdir := retrievetargetdir opts\<rparr>
      in bnd (createPackageManifest cfg sv manifestOptions pkg) (\<lambda>mf.
         bnd (retrieveOrSynthesize cfg sv obsoleteNames opts mf) (\<lambda>res.
         postRetrieve cfg sv obsoleteNames res opts)))"

text \<open>
  The same statements as the iterator runs them: the manifest and the retrieve are awaited,
  and line 111 returns the promise of \<open>_postRetrieve\<close> without awaiting it.
\<close>

definition tryBlockStart ::
  "'g config \<Rightarrow> ('w, 'g) services \<Rightarrow> obsoleteName list \<Rightarrow> pull_options \<Rightarrow> package
     \<Rightarrow> ('w, 'g, 'g pending) prog" where
  "tryBlockStart cfg sv obsoleteNames opts pkg =
     (let manifestOptions = opts\<lparr>outputdir := retrievetargetdir opts\<rparr>
      in bnd (createPackageManifest cfg sv manifestOptions pkg) (\<lambda>mf.
         bnd (retrieveOrSynthesize cfg sv obsoleteNames opts mf) (\<lambda>res.
         postRetrieveStart cfg sv obsoleteNames res opts)))"

text \<open>
  \<open>return p\<close> inside \<open>try\<close> with a \<open>finally\<close> block, where \<open>p\<close> is a promise nothing
  has awaited yet: the finaliser is called first, the rest of the computation behind \<open>p\<close>
  runs after that call and whether or not the finaliser throws, and the outcome is the
  value the finaliser threw, if it threw, and the outcome of \<open>p\<close> otherwise.
\<close>

definition finallyThenSettle ::
  "('w, 'g, unit) prog \<Rightarrow> ('w, 'g, 'a) prog \<Rightarrow> ('w, 'g, 'a) prog" where
  "finallyThenSettle fin rest =
     (\<lambda>s. case fin s of
        (c, s1) \<Rightarrow> (case rest s1 of
           (r, s2) \<Rightarrow> (case c of Inl e \<Rightarrow> (Inl e, s2) | Inr u \<Rightarrow> (r, s2))))"

text \<open>
  The iterator of \<open>mapSeries\<close> in \<open>doPull\<close>, lines 78 to 116. The \<open>try\<close> block starts
  with the creation of the output directory; \<open>opts.retrievetargetdir\<close>, which the
  \<open>finally\<close> block reads, is assigned only when that creation returned. A statement of
  the \<open>try\<close> block that throws (all of them are awaited, up to line 108) leads to the
  cleanup and is thrown again; line 111 leads to the cleanup with \<open>_postRetrieve\<close> still
  pending.
\<close>

definition pullPackage ::
  "'g config \<Rightarrow> ('w, 'g) services \<Rightarrow> obsoleteName list \<Rightarrow> pull_options
     \<Rightarrow> string \<times> package \<Rightarrow> ('w, 'g, pullResult option) prog" where
  "pullPackage cfg sv obsoleteNames options entry =
     (case entry of (pkgName, pkg) \<Rightarrow>
        bnd (call (SetActivePackage pkgName) (setActivePackage sv pkgName)) (\<lambda>u.
        (\<lambda>s. case call (CreateOutputDir ''pull'') (createOutputDir sv ''pull'') s of
           (Inl e, s1) \<Rightarrow>
             tryFinally (throw e)
               (call (CleanupOutputDir (retrievetargetdir options))
                  (cleanupOutputDir sv (retrievetargetdir options))) s1
         | (Inr dir, s1) \<Rightarrow>
             (case tryBlockStart cfg sv obsoleteNames
                     (options\<lparr>retrievetargetdir := Some dir\<rparr>) pkg s1 of
                (Inl e, s2) \<Rightarrow>
                  tryFinally (throw e)
                    (call (CleanupOutputDir (Some dir)) (cleanupOutputDir sv (Some dir))) s2
              | (Inr p, s2) \<Rightarrow>
                  finallyThenSettle
                    (call (CleanupOutputDir (Some dir)) (cleanupOutputDir sv (Some dir)))
                    (postRetrieveResume cfg sv p) s2))))"

text \<open>\<open>doPull\<close>, lines 70 to 121. \<open>obsoleteNames\<close> is the field \<open>this.obsoleteNames\<close>.\<close>

definition defaultWait :: "'g config \<Rightarrow> pull_options \<Rightarrow> pull_options" where
  "defaultWait cfg options =
     (if wait options = None then options\<lparr>wait := defaultSrcWaitMinutes cfg\<rparr> else options)"

definition doPull ::
  "'g config \<Rightarrow> ('w, 'g) services \<Rightarrow> obsoleteName list \<Rightarrow> pull_options
     \<Rightarrow> ('w, 'g, pullResult option list) prog" where
  "doPull cfg sv obsoleteNames options0 =
     (let options = defaultWait cfg options0
      in bnd (checkForConflicts cfg sv options) (\<lambda>c.
         bnd (call (GetRevisionsAsPackage obsoleteNames)
                (getRevisionsAsPackage sv obsoleteNames)) (\<lambda>(packages, obsoleteNames').
         bnd (mapSeries (pullPackage cfg sv obsoleteNames' options) packages) (\<lambda>results.
         bnd (call SetMaxRevisionCounterFromQuery (setMaxRevisionCounterFromQuery sv)) (\<lambda>u.
         ret results)))))"

subsection \<open>Reading the call log\<close>

text \<open>
  \<open>emits P m\<close>: whatever the state, \<open>m\<close> only appends to the call log, and every event
  it appends satisfies \<open>P\<close>.
\<close>

definition emits :: "('g event \<Rightarrow> bool) \<Rightarrow> ('w, 'g, 'a) prog \<Rightarrow> bool" where
  "emits P m = (\<forall>s. \<exists>evs. fst (snd (m s)) = fst s @ evs \<and> list_all P evs)"

definition isCleanup :: "'g event \<Rightarrow> bool" where
  "isCleanup e = (case e of CleanupOutputDir d \<Rightarrow> True | _ \<Rightarrow> False)"






text \<open>
  The objects of \<open>result.fileProperties\<close> at some moment of the first loop: each one as it
  arrived, or with its separators switched.
\<close>

definition partlySwitched :: "'g config \<Rightarrow> fileProperty list \<Rightarrow> fileProperty list \<Rightarrow> bool" where
  "partlySwitched cfg fps current =
     list_all2 (\<lambda>c fp. c = fp \<or> c = switchSeparators cfg fp) current fps"


text \<open>The name of a thrown value, and the message text it carries.\<close>

definition thrown_name :: "thrown \<Rightarrow> string option" where
  "thrown_name t = (case t of ThrownError e \<Rightarrow> Some (err_name e) | _ \<Rightarrow> None)"

definition thrown_text :: "thrown \<Rightarrow> string option" where
  "thrown_text t =
     (case t of ThrownError e \<Rightarrow> Some (err_message e) | ThrownString s \<Rightarrow> Some s
      | ThrownUndefined \<Rightarrow> None)"

section \<open>Concrete environments\<close>

text \<open>
  A file system in which the working directory \<open>/a/b\<close> has no project file and the
  stat of the candidate in \<open>/a\<close> is refused.
\<close>

definition fs_denied :: fs_env where
  "fs_denied =
     \<lparr>path_sep = CHR ''/'',
      process_cwd = ''/a/b'',
      path_join = (\<lambda>dir file. dir @ ''/'' @ file),
      statSync = (\<lambda>p. if p = ''/a/sfdx-project.json'' then StatErr ''EACCES''
                       else StatErr ''ENOENT''),
      getWorkspaceConfigFilename = ''sfdx-project.json'',
      getOldAndBustedWorkspaceConfigFilename = ''sfdx-workspace.json'',
      pd_getMessage = (\<lambda>key args. key)\<rparr>"

text \<open>
  A pull environment with a trivial world. The status outcome and the packages are
  parameters. The manifest of a package is named after its members; the retrieve of
  manifest \<open>B\<close> is rejected with a failed result attached to the error (a gateway
  timeout), the retrieve of manifest \<open>D\<close> returns a file the workspace cannot process,
  and every other retrieve returns two files. The aggregate is the list of the names
  touched.
\<close>

definition demo_config :: "string list config" where
  "demo_config =
     \<lparr>defaultSrcWaitMinutes = Some 33,
      configSourceApiVersion = None,
      getApiVersion = ''50.0'',
      getDefaultOptions =
        \<lparr>ro_retrievetargetdir = None, ro_unpackaged = None, ro_wait = None, ro_defaults = []\<rparr>,
      getMessage = (\<lambda>key. key),
      getRetrieveFailureMessage = (\<lambda>r. status r),
      replaceForwardSlashes = (\<lambda>p. p),
      newAggregateSourceElements = [],
      getAllWorkspaceElements =
        map (\<lambda>n. \<lparr>we_state = ''c'', we_fullName = n, we_type = ''ApexClass'', we_filePath = n\<rparr>)\<rparr>"

definition demo_error :: "string \<Rightarrow> string option \<Rightarrow> retrieveResult option \<Rightarrow> jsError" where
  "demo_error msg code res =
     \<lparr>err_name = ''Error'', err_message = msg, err_errorCode = code, err_result = res,
      err_sourceConflictElements = None\<rparr>"

definition ok_result :: retrieveResult where
  "ok_result =
     \<lparr>success = True, status = ''Succeeded'', messages = None,
      fileProperties = FPArray
        [\<lparr>fp_type = ''ApexClass'', fp_fullName = ''One'', fp_fileName = ''One.cls''\<rparr>,
         \<lparr>fp_type = ''ApexClass'', fp_fullName = ''Two'', fp_fileName = ''Two.cls''\<rparr>]\<rparr>"

definition failed_result :: retrieveResult where
  "failed_result =
     \<lparr>success = False, status = ''Failed'', messages = Some [''wait time exceeded''],
      fileProperties = FPNil\<rparr>"

definition broken_result :: retrieveResult where
  "broken_result =
     \<lparr>success = True, status = ''Succeeded'', messages = None,
      fileProperties = FPArray
        [\<lparr>fp_type = ''Broken'', fp_fullName = ''x'', fp_fileName = ''x''\<rparr>]\<rparr>"

text \<open>A result that is a success in every respect and carries an empty list of messages.\<close>

definition empty_messages_result :: retrieveResult where
  "empty_messages_result =
     \<lparr>success = True, status = ''Succeeded'', messages = Some [],
      fileProperties = FPArray []\<rparr>"

definition demo_retrieve :: "string option \<Rightarrow> jsError + retrieveResult option" where
  "demo_retrieve unpackaged =
     (if unpackaged = Some ''B'' then Inl (demo_error ''timeout'' None (Some failed_result))
      else if unpackaged = Some ''D'' then Inr (Some broken_result)
      else Inr (Some ok_result))"

text \<open>
  The definition files of a list are those whose file name ends in \<open>.cmp\<close>; the
  definition properties are those very objects of the list.
\<close>

fun sharedDefinitions :: "nat \<Rightarrow> fileProperty list \<Rightarrow> definitionRef list" where
  "sharedDefinitions i [] = []"
| "sharedDefinitions i (fp # fps) =
     (if take 4 (rev (fp_fileName fp)) = ''pmc.'' then [SameObject i] else [])
       @ sharedDefinitions (Suc i) fps"

definition demo_services ::
  "jsError + workspaceElementObj list \<Rightarrow> (string \<times> package) list
     \<Rightarrow> (unit, string list) services" where
  "demo_services st pkgs =
     \<lparr>statusApiCreate = (\<lambda>w. (Inr (), w)),
      doStatus = (\<lambda>w. (case st of Inl e \<Rightarrow> Inl e | Inr cs \<Rightarrow> Inr (), w)),
      getLocalConflicts = (\<lambda>w. (st, w)),
      getRevisionsAsPackage = (\<lambda>obs w. (Inr (pkgs, obs), w)),
      setActivePackage = (\<lambda>n w. (Inr (), w)),
      createOutputDir = (\<lambda>p w. (Inr (''/tmp/'' @ p), w)),
      cleanupOutputDir = (\<lambda>d w. (Inr (), w)),
      createManifestForMdapiPackage =
        (\<lambda>opts p w. (Inr \<lparr>mf_empty = False, mf_file = Some (concat (map snd (pkg_members p)))\<rparr>, w)),
      retrieve = (\<lambda>ro w. (demo_retrieve (ro_unpackaged ro), w)),
      getDefinitionProperties =
        (\<lambda>fps w. (Inr (case fps of FPArray xs \<Rightarrow> sharedDefinitions 0 xs | _ \<Rightarrow> []), w)),
      processMdapiFileProperty =
        (\<lambda>g d fp b w. (if fp_type fp = ''Broken'' then Inl (demo_error ''unreadable'' None None)
                        else Inr (g @ [fp_fileName fp]), w)),
      handleObsoleteSource = (\<lambda>g n t w. (Inr (g @ [n]), w)),
      updateSource = (\<lambda>g m c u f w. (Inr g, w)),
      maybeRefreshIndex = (\<lambda>fs w. (Inr (), w)),
      getSourceMembersFromResult = (\<lambda>fs w. (Inr (), w)),
      updateSourceTracking = (\<lambda>w. (Inr (), w)),
      setMaxRevisionCounterFromQuery = (\<lambda>w. (Inr (), w))\<rparr>"

text \<open>
  A host whose separator is the backslash, and the three files of one bundle, retrieved
  with forward slashes.
\<close>

definition backslash_config :: "string list config" where
  "backslash_config =
     demo_config\<lparr>replaceForwardSlashes :=
       map (\<lambda>c. if c = CHR ''/'' then CHR 0x5C else c)\<rparr>"

definition root_cmp :: fileProperty where
  "root_cmp =
     \<lparr>fp_type = ''AuraDefinitionBundle'', fp_fullName = ''root'',
      fp_fileName = ''aura/root/root.cmp''\<rparr>"

definition root_js :: fileProperty where
  "root_js =
     \<lparr>fp_type = ''AuraDefinitionBundle'', fp_fullName = ''root'',
      fp_fileName = ''aura/root/root.js''\<rparr>"

definition root_css :: fileProperty where
  "root_css =
     \<lparr>fp_type = ''AuraDefinitionBundle'', fp_fullName = ''root'',
      fp_fileName = ''aura/root/root.css''\<rparr>"

definition bundle_result :: "fileProperty list \<Rightarrow> retrieveResult" where
  "bundle_result fps =
     \<lparr>success = True, status = ''Succeeded'', messages = None, fileProperties = FPArray fps\<rparr>"

definition demo_package :: "string \<Rightarrow> string \<times> package" where
  "demo_package n =
     (n, \<lparr>pkg_isEmpty = False, pkg_version = None, pkg_members = [(''ApexClass'', n)]\<rparr>)"

definition empty_package :: "string \<Rightarrow> string \<times> package" where
  "empty_package n = (n, \<lparr>pkg_isEmpty = True, pkg_version = None, pkg_members = []\<rparr>)"

definition demo_options :: pull_options where
  "demo_options =
     \<lparr>wait = None, forceoverwrite = False, debug = False, packageXml = None,
      manifest = None, unsupportedMimeTypes = [], retrievetargetdir = None,
      outputdir = None\<rparr>"

definition conflict_Foo :: workspaceElementObj where
  "conflict_Foo =
     \<lparr>we_state = ''u'', we_fullName = ''Foo'', we_type = ''ApexClass'',
      we_filePath = ''classes/Foo.cls''\<rparr>"

section \<open>Properties of the project directory lookup\<close>

lemma traverseForFile_other_error:
  assumes "statSync fs (path_join fs workingDir file) = StatErr code"
    and "code \<noteq> ''ENOENT''"
  shows "traverseForFile fs found workingDir file = Inr found"
  using assms by (subst traverseForFile.simps) simp

lemma traverseForFile_stops_silently:
  assumes "k < length (candidateDirs (path_sep fs) workingDir)"
    and "\<forall>j<k. statSync fs (path_join fs (candidateDirs (path_sep fs) workingDir ! j) file)
                 = StatErr ''ENOENT''"
    and "statSync fs (path_join fs (candidateDirs (path_sep fs) workingDir ! k) file)
           = StatErr code"
    and "code \<noteq> ''ENOENT''"
  shows "traverseForFile fs found workingDir file = Inr found"
  using assms
proof (induction k arbitrary: workingDir)
  case 0
  have "candidateDirs (path_sep fs) workingDir ! 0 = workingDir"
    by (subst candidateDirs.simps) simp
  with 0 show ?case
    by (simp add: traverseForFile_other_error)
next
  case (Suc k)
  let ?i = "lastIndexOf workingDir (path_sep fs)"
  let ?parent = "take (nat ?i) workingDir"
  have unfold: "candidateDirs (path_sep fs) workingDir =
      workingDir # (if 0 < ?i then candidateDirs (path_sep fs) ?parent else [])"
    by (subst candidateDirs.simps) simp
  have pos: "0 < ?i"
  proof (rule ccontr)
    assume "\<not> 0 < ?i"
    with unfold have "length (candidateDirs (path_sep fs) workingDir) = 1"
      by simp
    with Suc.prems(1) show False by simp
  qed
  from unfold pos have cons:
    "candidateDirs (path_sep fs) workingDir = workingDir # candidateDirs (path_sep fs) ?parent"
    by simp
  have here: "statSync fs (path_join fs workingDir file) = StatErr ''ENOENT''"
    using Suc.prems(2) [rule_format, of 0] cons by simp
  have len: "k < length (candidateDirs (path_sep fs) ?parent)"
    using Suc.prems(1) cons by simp
  have below: "\<forall>j<k. statSync fs (path_join fs (candidateDirs (path_sep fs) ?parent ! j) file)
                 = StatErr ''ENOENT''"
  proof (intro allI impI)
    fix j assume "j < k"
    then have "Suc j < Suc k" by simp
    from Suc.prems(2) [rule_format, OF this] cons
    show "statSync fs (path_join fs (candidateDirs (path_sep fs) ?parent ! j) file)
            = StatErr ''ENOENT''"
      by simp
  qed
  have at: "statSync fs (path_join fs (candidateDirs (path_sep fs) ?parent ! k) file)
              = StatErr code"
    using Suc.prems(3) cons by simp
  have "traverseForFile fs found ?parent file = Inr found"
    by (rule Suc.IH [OF len below at Suc.prems(4)])
  with here pos show ?case
    by (subst traverseForFile.simps) simp
qed

text \<open>
  C10. When, on the way from the current working directory towards the root, every
  candidate so far was missing (\<open>ENOENT\<close>) and the stat of the next candidate config
  file fails with any other code, \<open>getPath\<close> neither throws nor finds a directory: it
  returns \<open>null\<close>.
\<close>

theorem getPath_null_on_other_stat_error:
  assumes "k < length (candidateDirs (path_sep fs) (process_cwd fs))"
    and "\<forall>j<k. statSync fs (path_join fs (candidateDirs (path_sep fs) (process_cwd fs) ! j)
                               (getWorkspaceConfigFilename fs)) = StatErr ''ENOENT''"
    and "statSync fs (path_join fs (candidateDirs (path_sep fs) (process_cwd fs) ! k)
                        (getWorkspaceConfigFilename fs)) = StatErr code"
    and "code \<noteq> ''ENOENT''"
  shows "getPath fs = Inr None"
  unfolding getPath_def
  by (simp add: traverseForFile_stops_silently [OF assms])

theorem getPath_null_on_other_stat_error_witness:
  "1 < length (candidateDirs (path_sep fs_denied) (process_cwd fs_denied)) \<and>
   statSync fs_denied
     (path_join fs_denied (candidateDirs (path_sep fs_denied) (process_cwd fs_denied) ! 0)
        (getWorkspaceConfigFilename fs_denied)) = StatErr ''ENOENT'' \<and>
   statSync fs_denied
     (path_join fs_denied (candidateDirs (path_sep fs_denied) (process_cwd fs_denied) ! 1)
        (getWorkspaceConfigFilename fs_denied)) = StatErr ''EACCES'' \<and>
   ''EACCES'' \<noteq> ''ENOENT'' \<and>
   getPath fs_denied = Inr None"
proof -
  have dirs: "candidateDirs (path_sep fs_denied) (process_cwd fs_denied) = [''/a/b'', ''/a'']"
    by (simp add: fs_denied_def candidateDirs.simps)
  have len: "1 < length (candidateDirs (path_sep fs_denied) (process_cwd fs_denied))"
    by (simp add: dirs)
  have below: "\<forall>j<1. statSync fs_denied
      (path_join fs_denied (candidateDirs (path_sep fs_denied) (process_cwd fs_denied) ! j)
         (getWorkspaceConfigFilename fs_denied)) = StatErr ''ENOENT''"
    by (simp add: dirs) (simp add: fs_denied_def)
  have at: "statSync fs_denied
      (path_join fs_denied (candidateDirs (path_sep fs_denied) (process_cwd fs_denied) ! 1)
         (getWorkspaceConfigFilename fs_denied)) = StatErr ''EACCES''"
    by (simp add: dirs) (simp add: fs_denied_def)
  have neq: "''EACCES'' \<noteq> ''ENOENT''"
    by simp
  from getPath_null_on_other_stat_error [OF len below at neq] len below at neq
  show ?thesis by simp
qed

section \<open>Properties of the source pull\<close>

subsection \<open>Sequencing and call logs\<close>


lemma bnd_throw: "bnd (throw e) f = throw e"
  by (simp add: bnd_def throw_def)

lemma bnd_Inr: "m s = (Inr x, s') \<Longrightarrow> bnd m f s = f x s'"
  by (simp add: bnd_def)

lemma bnd_Inl: "m s = (Inl e, s') \<Longrightarrow> bnd m f s = (Inl e, s')"
  by (simp add: bnd_def)

lemma call_Inr: "f w = (Inr x, w') \<Longrightarrow> call ev f (tr, w) = (Inr x, (tr @ [ev], w'))"
  by (simp add: call_def)

lemma call_Inl:
  "f w = (Inl e, w') \<Longrightarrow> call ev f (tr, w) = (Inl (ThrownError e), (tr @ [ev], w'))"
  by (simp add: call_def)

named_theorems emits_intros


lemma emits_mono: "emits P m \<Longrightarrow> (\<And>e. P e \<Longrightarrow> Q e) \<Longrightarrow> emits Q m"
  unfolding emits_def list_all_iff by blast

lemma emits_ret [emits_intros]: "emits P (ret x)"
  by (simp add: emits_def ret_def)

lemma emits_throw [emits_intros]: "emits P (throw e)"
  by (simp add: emits_def throw_def)

lemma emits_call [emits_intros]: "P ev \<Longrightarrow> emits P (call ev f)"
  by (auto simp: emits_def call_def split: prod.splits sum.splits)

lemma emits_bnd [emits_intros]:
  assumes "emits P m" and "\<And>x. emits P (f x)"
  shows "emits P (bnd m f)"
  unfolding emits_def
proof
  fix s
  from assms(1) obtain evs1 where m: "fst (snd (m s)) = fst s @ evs1" "list_all P evs1"
    unfolding emits_def by blast
  show "\<exists>evs. fst (snd (bnd m f s)) = fst s @ evs \<and> list_all P evs"
  proof -
    obtain r s1 where Pair: "m s = (r, s1)" by (cases "m s")
    show ?thesis
    proof (cases r)
      case (Inl e)
      with Pair m show ?thesis by (auto simp: bnd_def)
    next
      case (Inr x)
      from assms(2) [of x] obtain evs2
        where f: "fst (snd (f x s1)) = fst s1 @ evs2" "list_all P evs2"
        unfolding emits_def by blast
      from Pair Inr m f have "fst (snd (bnd m f s)) = fst s @ (evs1 @ evs2)"
        by (simp add: bnd_def)
      moreover from m f have "list_all P (evs1 @ evs2)" by simp
      ultimately show ?thesis by blast
    qed
  qed
qed


lemma emits_if [emits_intros]:
  "(c \<Longrightarrow> emits P a) \<Longrightarrow> (\<not> c \<Longrightarrow> emits P b) \<Longrightarrow> emits P (if c then a else b)"
  by simp

lemma partlySwitched_refl: "partlySwitched cfg fps fps"
  by (simp add: partlySwitched_def list_all2_refl)





subsection \<open>Conflict check and success predicate\<close>

lemma didRetrieveSucceed_iff:
  "didRetrieveSucceed res \<longleftrightarrow>
     (\<exists>r fps. res = Some r \<and> success r \<and> status r = ''Succeeded'' \<and> messages r = None \<and>
        fileProperties r = FPArray fps)"
  by (cases res) (auto simp: didRetrieveSucceed_def isNil_fileProps_def isArray_def
      split: fileProps.splits)

lemma forceoverwrite_defaultWait:
  "forceoverwrite (defaultWait cfg options) = forceoverwrite options"
  by (simp add: defaultWait_def)

lemma checkForConflicts_conflicts:
  assumes "\<not> forceoverwrite options"
    and "statusApiCreate sv w = (Inr u1, w1)"
    and "doStatus sv w1 = (Inr u2, w2)"
    and "getLocalConflicts sv w2 = (Inr conflicts, w3)"
  shows "checkForConflicts cfg sv options (tr, w) =
     (if 0 < length conflicts then
        Inl (ThrownError
            \<lparr>err_name = ''SourceConflict'',
             err_message = ''Conflicts found during sync down'',
             err_errorCode = None, err_result = None,
             err_sourceConflictElements = Some conflicts\<rparr>)
      else Inr None, (tr @ [StatusApiCreate, DoStatus, GetLocalConflicts], w3))"
  using assms
  by (simp add: checkForConflicts_def bnd_def catchWith_def call_def throw_def ret_def)

lemma checkForConflicts_status_fails:
  assumes "\<not> forceoverwrite options"
    and "statusApiCreate sv w = (Inr u1, w1)"
    and "doStatus sv w1 = (Inl e, w2)"
  shows "checkForConflicts cfg sv options (tr, w) =
     (Inl (statusErrorMessage cfg (ThrownError e)), (tr @ [StatusApiCreate, DoStatus], w2))"
  using assms
  by (simp add: checkForConflicts_def bnd_def catchWith_def call_def throw_def ret_def)

lemma doPull_conflict_check_fails:
  assumes "checkForConflicts cfg sv (defaultWait cfg options) s = (Inl e, s')"
  shows "doPull cfg sv obsoleteNames options s = (Inl e, s')"
  using assms by (simp add: doPull_def Let_def bnd_def)

subsection \<open>Call logs of the pull functions\<close>



lemma emits_processResults: "emits P (processResults cfg res inbound)"
  by (cases res) (simp_all add: processResults_def emits_ret emits_throw)

lemma emits_postRetrieve:
  assumes sync: "emits P (syncDownSource cfg sv obs res options)"
    and mr: "\<And>fs. P (MaybeRefreshIndex fs)"
    and gs: "\<And>fs. P (GetSourceMembersFromResult fs)"
    and ut: "P UpdateSourceTracking"
  shows "emits P (postRetrieve cfg sv obs res options)"
  unfolding postRetrieve_def
  by (intro emits_bnd emits_if emits_ret emits_call emits_processResults sync mr gs ut)



lemma not_isCleanup [simp]:
  "\<not> isCleanup (CreateManifestForMdapiPackage opts p)"
  "\<not> isCleanup (Retrieve ro)"
  "\<not> isCleanup (GetDefinitionProperties fps)"
  "\<not> isCleanup (ProcessMdapiFileProperty g d fp b)"
  "\<not> isCleanup (HandleObsoleteSource g n t)"
  "\<not> isCleanup (UpdateSource g m c u f)"
  "\<not> isCleanup (MaybeRefreshIndex fs)"
  "\<not> isCleanup (GetSourceMembersFromResult fs)"
  "\<not> isCleanup UpdateSourceTracking"
  "\<not> isCleanup (SetActivePackage pkgName)"
  "\<not> isCleanup (CreateOutputDir p')"
  "isCleanup (CleanupOutputDir d')"
  by (simp_all add: isCleanup_def)






lemma postRetrieve_in_two_parts:
  "postRetrieve cfg sv obs res options =
     bnd (postRetrieveStart cfg sv obs res options) (postRetrieveResume cfg sv)"
proof
  fix s
  show "postRetrieve cfg sv obs res options s =
     bnd (postRetrieveStart cfg sv obs res options) (postRetrieveResume cfg sv) s"
  proof (cases "didRetrieveSucceed res")
    case False
    then show ?thesis
      by (simp add: postRetrieve_def postRetrieveStart_def postRetrieveResume_def bnd_def
          ret_def split: prod.splits sum.splits)
  next
    case True
    obtain r s1 where "syncDownSource cfg sv obs res options s = (r, s1)"
      by (cases "syncDownSource cfg sv obs res options s")
    with True show ?thesis
      by (cases r)
        (simp_all add: postRetrieve_def postRetrieveStart_def postRetrieveResume_def bnd_def
          ret_def throw_def split: prod.splits sum.splits)
  qed
qed

lemma tryBlock_in_two_parts:
  "tryBlock cfg sv obs opts pkg =
     bnd (tryBlockStart cfg sv obs opts pkg) (postRetrieveResume cfg sv)"
proof
  fix s
  show "tryBlock cfg sv obs opts pkg s =
     bnd (tryBlockStart cfg sv obs opts pkg) (postRetrieveResume cfg sv) s"
    by (simp add: tryBlock_def tryBlockStart_def postRetrieve_in_two_parts Let_def bnd_def
        split: prod.splits sum.splits)
qed


lemma mapSeries_stops:
  assumes "mapSeries f before s = (Inr rs, s1)" and "f p s1 = (Inl e, s2)"
  shows "mapSeries f (before @ p # after) s = (Inl e, s2)"
  using assms
proof (induction before arbitrary: s rs)
  case Nil
  then show ?case by (simp add: ret_def bnd_def)
next
  case (Cons x xs)
  obtain r sx where fx: "f x s = (r, sx)" by (cases "f x s")
  show ?case
  proof (cases r)
    case (Inl e')
    with fx Cons.prems(1) show ?thesis by (simp add: bnd_def)
  next
    case (Inr y)
    obtain r' s' where rest: "mapSeries f xs sx = (r', s')" by (cases "mapSeries f xs sx")
    show ?thesis
    proof (cases r')
      case (Inl e')
      with fx Inr rest Cons.prems(1) show ?thesis by (simp add: bnd_def)
    next
      case (Inr ys)
      with fx \<open>r = Inr y\<close> rest Cons.prems(1) have "s' = s1"
        by (simp add: bnd_def ret_def)
      with rest Inr have "mapSeries f xs sx = (Inr ys, s1)" by simp
      from Cons.IH [OF this Cons.prems(2)] fx \<open>r = Inr y\<close>
      show ?thesis by (simp add: bnd_def)
    qed
  qed
qed












lemmas prog_defs = bnd_def ret_def throw_def call_def catchWith_def tryFinally_def Let_def

lemmas pull_defs = doPull_def defaultWait_def checkForConflicts_def pullPackage_def tryBlock_def
  createPackageManifest_def retrieveOrSynthesize_def postRetrieve_def syncDownSource_def
  processResults_def didRetrieveSucceed_def isNil_fileProps_def isArray_def thrown_result_def
  statusErrorMessage_def typeError_def

lemmas demo_defs = demo_config_def demo_services_def demo_retrieve_def demo_error_def
  demo_package_def empty_package_def demo_options_def conflict_Foo_def ok_result_def
  failed_result_def broken_result_def empty_messages_result_def
  postRetrieveStart_def postRetrieveResume_def tryBlockStart_def finallyThenSettle_def
  switchSeparators_def definitionsSeen_def lookupDefinition_def List.map_filter_def
  backslash_config_def root_cmp_def root_js_def root_css_def bundle_result_def

subsection \<open>The orchestration of a pull\<close>

text \<open>
  C1, as the code has it. After the conflict check and the partition into packages,
  \<open>doPull\<close> runs the package step on one package after the other. When the step of a
  package throws, \<open>doPull\<close> throws the same value and ends in the state which that step
  left: no later package is processed and the revision counter is not queried again.
  When the step of every package returns, the revision counter is queried once, after
  the last package, and the results of the packages are returned (or the error of that
  query is thrown).
\<close>

theorem doPull_stops_at_failed_package:
  assumes "checkForConflicts cfg sv (defaultWait cfg options) s0 = (Inr c, (tr1, w1))"
    and "getRevisionsAsPackage sv obsoleteNames w1 = (Inr (packages, obsoleteNames'), w2)"
  shows
    "(\<forall>before p after rs s3 e s4.
        packages = before @ p # after \<and>
        mapSeries (pullPackage cfg sv obsoleteNames' (defaultWait cfg options)) before
          (tr1 @ [GetRevisionsAsPackage obsoleteNames], w2) = (Inr rs, s3) \<and>
        pullPackage cfg sv obsoleteNames' (defaultWait cfg options) p s3 = (Inl e, s4)
        \<longrightarrow> doPull cfg sv obsoleteNames options s0 = (Inl e, s4)) \<and>
     (\<forall>rs tr3 w3.
        mapSeries (pullPackage cfg sv obsoleteNames' (defaultWait cfg options)) packages
          (tr1 @ [GetRevisionsAsPackage obsoleteNames], w2) = (Inr rs, (tr3, w3))
        \<longrightarrow> doPull cfg sv obsoleteNames options s0 =
              (case setMaxRevisionCounterFromQuery sv w3 of
                 (Inl e, w4) \<Rightarrow>
                   (Inl (ThrownError e), (tr3 @ [SetMaxRevisionCounterFromQuery], w4))
               | (Inr u, w4) \<Rightarrow> (Inr rs, (tr3 @ [SetMaxRevisionCounterFromQuery], w4))))"
proof (intro conjI allI impI)
  fix before p after rs s3 e s4
  assume h: "packages = before @ p # after \<and>
        mapSeries (pullPackage cfg sv obsoleteNames' (defaultWait cfg options)) before
          (tr1 @ [GetRevisionsAsPackage obsoleteNames], w2) = (Inr rs, s3) \<and>
        pullPackage cfg sv obsoleteNames' (defaultWait cfg options) p s3 = (Inl e, s4)"
  then have "mapSeries (pullPackage cfg sv obsoleteNames' (defaultWait cfg options)) packages
          (tr1 @ [GetRevisionsAsPackage obsoleteNames], w2) = (Inl e, s4)"
    using mapSeries_stops by fastforce
  with assms show "doPull cfg sv obsoleteNames options s0 = (Inl e, s4)"
    by (simp add: doPull_def Let_def bnd_def call_def)
next
  fix rs tr3 w3
  assume "mapSeries (pullPackage cfg sv obsoleteNames' (defaultWait cfg options)) packages
          (tr1 @ [GetRevisionsAsPackage obsoleteNames], w2) = (Inr rs, (tr3, w3))"
  with assms show "doPull cfg sv obsoleteNames options s0 =
              (case setMaxRevisionCounterFromQuery sv w3 of
                 (Inl e, w4) \<Rightarrow>
                   (Inl (ThrownError e), (tr3 @ [SetMaxRevisionCounterFromQuery], w4))
               | (Inr u, w4) \<Rightarrow> (Inr rs, (tr3 @ [SetMaxRevisionCounterFromQuery], w4)))"
    by (simp add: doPull_def Let_def bnd_def call_def ret_def split: prod.splits sum.splits)
qed

theorem doPull_failure_aborts_counterexample:
  "fst (doPull demo_config
         (demo_services (Inr []) [demo_package ''A'', demo_package ''B'', demo_package ''C''])
         [] demo_options ([], ())) =
     Inl (ThrownError
           \<lparr>err_name = ''RetrieveFailed'', err_message = ''Failed'',
            err_errorCode = None, err_result = None, err_sourceConflictElements = None\<rparr>) \<and>
   SetActivePackage ''B'' \<in> set (fst (snd (doPull demo_config
         (demo_services (Inr []) [demo_package ''A'', demo_package ''B'', demo_package ''C''])
         [] demo_options ([], ())))) \<and>
   SetActivePackage ''C'' \<notin> set (fst (snd (doPull demo_config
         (demo_services (Inr []) [demo_package ''A'', demo_package ''B'', demo_package ''C''])
         [] demo_options ([], ())))) \<and>
   SetMaxRevisionCounterFromQuery \<notin> set (fst (snd (doPull demo_config
         (demo_services (Inr []) [demo_package ''A'', demo_package ''B'', demo_package ''C''])
         [] demo_options ([], ()))))"
  by (simp add: prog_defs pull_defs demo_defs Let_def)

theorem doPull_stops_at_failed_package_witness:
  "checkForConflicts demo_config
      (demo_services (Inr []) [demo_package ''A'', demo_package ''B'', demo_package ''C''])
      (defaultWait demo_config demo_options) ([], ()) =
     (Inr None, ([StatusApiCreate, DoStatus, GetLocalConflicts], ())) \<and>
   \<not> isl (fst (mapSeries
      (pullPackage demo_config
         (demo_services (Inr []) [demo_package ''A'', demo_package ''B'', demo_package ''C''])
         [] (defaultWait demo_config demo_options))
      [demo_package ''A'']
      ([StatusApiCreate, DoStatus, GetLocalConflicts] @ [GetRevisionsAsPackage []], ()))) \<and>
   isl (fst (pullPackage demo_config
         (demo_services (Inr []) [demo_package ''A'', demo_package ''B'', demo_package ''C''])
         [] (defaultWait demo_config demo_options) (demo_package ''B'')
         (snd (mapSeries
            (pullPackage demo_config
               (demo_services (Inr [])
                  [demo_package ''A'', demo_package ''B'', demo_package ''C''])
               [] (defaultWait demo_config demo_options))
            [demo_package ''A'']
            ([StatusApiCreate, DoStatus, GetLocalConflicts] @ [GetRevisionsAsPackage []], ()))))) \<and>
   snd (doPull demo_config
       (demo_services (Inr []) [demo_package ''A'', demo_package ''B'', demo_package ''C''])
       [] demo_options ([], ())) =
     snd (pullPackage demo_config
         (demo_services (Inr []) [demo_package ''A'', demo_package ''B'', demo_package ''C''])
         [] (defaultWait demo_config demo_options) (demo_package ''B'')
         (snd (mapSeries
            (pullPackage demo_config
               (demo_services (Inr [])
                  [demo_package ''A'', demo_package ''B'', demo_package ''C''])
               [] (defaultWait demo_config demo_options))
            [demo_package ''A'']
            ([StatusApiCreate, DoStatus, GetLocalConflicts] @ [GetRevisionsAsPackage []], ())))) \<and>
   isl (fst (doPull demo_config
       (demo_services (Inr []) [demo_package ''A'', demo_package ''B'', demo_package ''C''])
       [] demo_options ([], ()))) \<and>
   \<not> isl (fst (doPull demo_config (demo_services (Inr []) [demo_package ''A''])
       [] demo_options ([], ()))) \<and>
   last (fst (snd (doPull demo_config (demo_services (Inr []) [demo_package ''A''])
       [] demo_options ([], ())))) = SetMaxRevisionCounterFromQuery"
proof -
  let ?sv = "demo_services (Inr []) [demo_package ''A'', demo_package ''B'', demo_package ''C'']"
  let ?sv1 = "demo_services (Inr []) [demo_package ''A'']"
  let ?tr1 = "[StatusApiCreate, DoStatus, GetLocalConflicts] :: string list event list"
  let ?s2 = "(?tr1 @ [GetRevisionsAsPackage []], ())"
  let ?step = "pullPackage demo_config ?sv [] (defaultWait demo_config demo_options)"
  let ?step1 = "pullPackage demo_config ?sv1 [] (defaultWait demo_config demo_options)"
  let ?A = "mapSeries ?step [demo_package ''A''] ?s2"
  let ?B = "?step (demo_package ''B'') (snd ?A)"
  let ?A1 = "mapSeries ?step1 [demo_package ''A''] ?s2"
  have cc: "checkForConflicts demo_config ?sv (defaultWait demo_config demo_options) ([], ()) =
     (Inr None, (?tr1, ()))"
    by (simp add: prog_defs pull_defs demo_defs)
  have cc1: "checkForConflicts demo_config ?sv1 (defaultWait demo_config demo_options) ([], ()) =
     (Inr None, (?tr1, ()))"
    by (simp add: prog_defs pull_defs demo_defs)
  have gr: "getRevisionsAsPackage ?sv [] () =
      (Inr ([demo_package ''A'', demo_package ''B'', demo_package ''C''], []), ())"
    and gr1: "getRevisionsAsPackage ?sv1 [] () = (Inr ([demo_package ''A''], []), ())"
    by (simp_all add: demo_services_def)
  have okA: "\<not> isl (fst ?A)"
    by (simp add: prog_defs pull_defs demo_defs Let_def)
  have failB: "isl (fst ?B)"
    by (simp add: prog_defs pull_defs demo_defs Let_def)
  have okA1: "\<not> isl (fst ?A1)"
    by (simp add: prog_defs pull_defs demo_defs Let_def)
  from okA obtain rs where A: "?A = (Inr rs, snd ?A)"
    by (cases "fst ?A") (auto simp: prod_eq_iff)
  from failB obtain e where B: "?B = (Inl e, snd ?B)"
    by (cases "fst ?B") (auto simp: prod_eq_iff)
  from okA1 obtain rs1 where A1: "?A1 = (Inr rs1, (fst (snd ?A1), ()))"
    by (cases "fst ?A1") (auto simp: prod_eq_iff)
  have split: "[demo_package ''A'', demo_package ''B'', demo_package ''C''] =
      [demo_package ''A''] @ demo_package ''B'' # [demo_package ''C'']"
    by simp
  have "doPull demo_config ?sv [] demo_options ([], ()) = (Inl e, snd ?B)"
    by (rule doPull_stops_at_failed_package [OF cc gr, THEN conjunct1, rule_format,
          OF conjI [OF split conjI [OF A B]]])
  then have stop: "snd (doPull demo_config ?sv [] demo_options ([], ())) = snd ?B"
    "isl (fst (doPull demo_config ?sv [] demo_options ([], ())))"
    by simp_all
  have sm: "setMaxRevisionCounterFromQuery ?sv1 () = (Inr (), ())"
    by (simp add: demo_services_def)
  have "doPull demo_config ?sv1 [] demo_options ([], ()) =
      (case setMaxRevisionCounterFromQuery ?sv1 () of
         (Inl e, w4) \<Rightarrow>
           (Inl (ThrownError e), (fst (snd ?A1) @ [SetMaxRevisionCounterFromQuery], w4))
       | (Inr u, w4) \<Rightarrow> (Inr rs1, (fst (snd ?A1) @ [SetMaxRevisionCounterFromQuery], w4)))"
    by (rule doPull_stops_at_failed_package [OF cc1 gr1, THEN conjunct2, rule_format, OF A1])
  then have "doPull demo_config ?sv1 [] demo_options ([], ()) =
      (Inr rs1, (fst (snd ?A1) @ [SetMaxRevisionCounterFromQuery], ()))"
    by (simp only: sm prod.case sum.case)
  then have finished: "\<not> isl (fst (doPull demo_config ?sv1 [] demo_options ([], ())))"
    "last (fst (snd (doPull demo_config ?sv1 [] demo_options ([], ())))) =
       SetMaxRevisionCounterFromQuery"
    by simp_all
  from cc okA failB stop finished show ?thesis
    by blast
qed

text \<open>
  C2. Under \<open>forceoverwrite\<close> the conflict check returns \<open>[]\<close> and leaves the call log
  and the world as they were. Otherwise, when the status calls return and report at least
  one conflict, \<open>doPull\<close> throws the error named \<open>SourceConflict\<close> whose
  \<open>sourceConflictElements\<close> is the whole list of conflicts, and the three calls of the
  status check are the only calls made: no partition, no manifest, no retrieve.
\<close>

theorem conflicts_abort_pull:
  "(forceoverwrite options \<longrightarrow> checkForConflicts cfg sv options s = (Inr (Some []), s)) \<and>
   (\<not> forceoverwrite options \<and>
    statusApiCreate sv w = (Inr u1, w1) \<and> doStatus sv w1 = (Inr u2, w2) \<and>
    getLocalConflicts sv w2 = (Inr conflicts, w3) \<and> conflicts \<noteq> [] \<longrightarrow>
      doPull cfg sv obsoleteNames options (tr, w) =
        (Inl (ThrownError
           \<lparr>err_name = ''SourceConflict'',
            err_message = ''Conflicts found during sync down'',
            err_errorCode = None, err_result = None,
            err_sourceConflictElements = Some conflicts\<rparr>),
         (tr @ [StatusApiCreate, DoStatus, GetLocalConflicts], w3)))"
proof (intro conjI impI)
  assume "forceoverwrite options"
  then show "checkForConflicts cfg sv options s = (Inr (Some []), s)"
    by (simp add: checkForConflicts_def ret_def)
next
  assume h: "\<not> forceoverwrite options \<and>
    statusApiCreate sv w = (Inr u1, w1) \<and> doStatus sv w1 = (Inr u2, w2) \<and>
    getLocalConflicts sv w2 = (Inr conflicts, w3) \<and> conflicts \<noteq> []"
  then have nf: "\<not> forceoverwrite (defaultWait cfg options)"
    by (simp add: forceoverwrite_defaultWait)
  from h have "checkForConflicts cfg sv (defaultWait cfg options) (tr, w) =
     (Inl (ThrownError
           \<lparr>err_name = ''SourceConflict'',
            err_message = ''Conflicts found during sync down'',
            err_errorCode = None, err_result = None,
            err_sourceConflictElements = Some conflicts\<rparr>),
      (tr @ [StatusApiCreate, DoStatus, GetLocalConflicts], w3))"
    by (simp add: checkForConflicts_conflicts [OF nf])
  then show "doPull cfg sv obsoleteNames options (tr, w) =
        (Inl (ThrownError
           \<lparr>err_name = ''SourceConflict'',
            err_message = ''Conflicts found during sync down'',
            err_errorCode = None, err_result = None,
            err_sourceConflictElements = Some conflicts\<rparr>),
         (tr @ [StatusApiCreate, DoStatus, GetLocalConflicts], w3))"
    by (rule doPull_conflict_check_fails)
qed

theorem conflicts_abort_pull_witness:
  "forceoverwrite (demo_options\<lparr>forceoverwrite := True\<rparr>) \<and>
   checkForConflicts demo_config (demo_services (Inr [conflict_Foo]) [demo_package ''A''])
     (demo_options\<lparr>forceoverwrite := True\<rparr>) ([], ()) = (Inr (Some []), ([], ())) \<and>
   \<not> forceoverwrite demo_options \<and>
   getLocalConflicts (demo_services (Inr [conflict_Foo]) [demo_package ''A'']) ()
     = (Inr [conflict_Foo], ()) \<and>
   doPull demo_config (demo_services (Inr [conflict_Foo]) [demo_package ''A'']) []
       demo_options ([], ()) =
     (Inl (ThrownError
        \<lparr>err_name = ''SourceConflict'',
         err_message = ''Conflicts found during sync down'',
         err_errorCode = None, err_result = None,
         err_sourceConflictElements = Some [conflict_Foo]\<rparr>),
      ([StatusApiCreate, DoStatus, GetLocalConflicts], ()))"
proof -
  let ?sv = "demo_services (Inr [conflict_Foo]) [demo_package ''A'']"
  have f: "forceoverwrite (demo_options\<lparr>forceoverwrite := True\<rparr>)"
    by simp
  have nf: "\<not> forceoverwrite demo_options"
    by (simp add: demo_options_def)
  have a: "statusApiCreate ?sv () = (Inr (), ())"
    and b: "doStatus ?sv () = (Inr (), ())"
    and c: "getLocalConflicts ?sv () = (Inr [conflict_Foo], ())"
    by (simp_all add: demo_services_def)
  have d: "[conflict_Foo] \<noteq> []"
    by simp
  note thm1 = conflicts_abort_pull [of "demo_options\<lparr>forceoverwrite := True\<rparr>" demo_config ?sv
      "([], ())" "()" "()" "()" "()" "()"  "[conflict_Foo]" "()" "[]" "[]", THEN conjunct1, rule_format, OF f]
  note thm2 = conflicts_abort_pull [of demo_options demo_config ?sv
      "([], ())" "()" "()" "()" "()" "()" "[conflict_Foo]" "()" "[]" "[]", THEN conjunct2, rule_format]
  from thm2 nf a b c d
  have "doPull demo_config ?sv [] demo_options ([], ()) =
     (Inl (ThrownError
        \<lparr>err_name = ''SourceConflict'',
         err_message = ''Conflicts found during sync down'',
         err_errorCode = None, err_result = None,
         err_sourceConflictElements = Some [conflict_Foo]\<rparr>),
      ([StatusApiCreate, DoStatus, GetLocalConflicts], ()))"
    by simp
  with thm1 f nf c show ?thesis
    by simp
qed

text \<open>
  C3, as the code has it. A result counts as succeeded exactly when it is not nil, its
  \<open>success\<close> holds, its \<open>status\<close> is \<open>Succeeded\<close>, its \<open>messages\<close> field is nil (a list,
  even an empty one, does not pass) and its \<open>fileProperties\<close> is an array. For such a
  result the apply step runs: when it and the three tracking calls return, the package
  yields \<open>{inboundFiles}\<close> with the elements of the aggregate the apply step returned, and
  when the apply step throws, that value is thrown. A result that is not nil and has not
  succeeded makes the package throw \<open>RetrieveFailed\<close> without any call; a nil result makes
  it return \<open>undefined\<close> without any call.
\<close>

theorem retrieve_success_predicate:
  "(didRetrieveSucceed res \<longleftrightarrow>
      (\<exists>r fps. res = Some r \<and> success r \<and> status r = ''Succeeded'' \<and> messages r = None \<and>
         fileProperties r = FPArray fps)) \<and>
   (didRetrieveSucceed res \<and>
    syncDownSource cfg sv obsoleteNames res options s = (Inr changed, (tr1, w1)) \<and>
    maybeRefreshIndex sv (getAllWorkspaceElements cfg changed) w1 = (Inr u1, w2) \<and>
    getSourceMembersFromResult sv (getAllWorkspaceElements cfg changed) w2 = (Inr u2, w3) \<and>
    updateSourceTracking sv w3 = (Inr u3, w4) \<longrightarrow>
      postRetrieve cfg sv obsoleteNames res options s =
        (Inr (Some \<lparr>inboundFiles = Some (getAllWorkspaceElements cfg changed)\<rparr>),
         (tr1 @ [MaybeRefreshIndex (getAllWorkspaceElements cfg changed),
                 GetSourceMembersFromResult (getAllWorkspaceElements cfg changed),
                 UpdateSourceTracking], w4))) \<and>
   (didRetrieveSucceed res \<and>
    syncDownSource cfg sv obsoleteNames res options s = (Inl e, s1) \<longrightarrow>
      postRetrieve cfg sv obsoleteNames res options s = (Inl e, s1)) \<and>
   (res = Some r \<and> \<not> didRetrieveSucceed res \<longrightarrow>
      postRetrieve cfg sv obsoleteNames res options s =
        (Inl (ThrownError
           \<lparr>err_name = ''RetrieveFailed'', err_message = getRetrieveFailureMessage cfg r,
            err_errorCode = None, err_result = None, err_sourceConflictElements = None\<rparr>), s)) \<and>
   (res = None \<longrightarrow> postRetrieve cfg sv obsoleteNames res options s = (Inr None, s))"
proof (intro conjI impI)
  show "didRetrieveSucceed res \<longleftrightarrow>
      (\<exists>r fps. res = Some r \<and> success r \<and> status r = ''Succeeded'' \<and> messages r = None \<and>
         fileProperties r = FPArray fps)"
    by (rule didRetrieveSucceed_iff)
next
  assume h: "didRetrieveSucceed res \<and>
    syncDownSource cfg sv obsoleteNames res options s = (Inr changed, (tr1, w1)) \<and>
    maybeRefreshIndex sv (getAllWorkspaceElements cfg changed) w1 = (Inr u1, w2) \<and>
    getSourceMembersFromResult sv (getAllWorkspaceElements cfg changed) w2 = (Inr u2, w3) \<and>
    updateSourceTracking sv w3 = (Inr u3, w4)"
  then obtain r where "res = Some r"
    by (auto simp: didRetrieveSucceed_iff)
  with h show "postRetrieve cfg sv obsoleteNames res options s =
        (Inr (Some \<lparr>inboundFiles = Some (getAllWorkspaceElements cfg changed)\<rparr>),
         (tr1 @ [MaybeRefreshIndex (getAllWorkspaceElements cfg changed),
                 GetSourceMembersFromResult (getAllWorkspaceElements cfg changed),
                 UpdateSourceTracking], w4))"
    by (simp add: postRetrieve_def processResults_def bnd_def ret_def call_def)
next
  assume "didRetrieveSucceed res \<and>
    syncDownSource cfg sv obsoleteNames res options s = (Inl e, s1)"
  then show "postRetrieve cfg sv obsoleteNames res options s = (Inl e, s1)"
    by (simp add: postRetrieve_def bnd_def)
next
  assume "res = Some r \<and> \<not> didRetrieveSucceed res"
  then have "res = Some r" and "\<not> didRetrieveSucceed (Some r)"
    by auto
  then show "postRetrieve cfg sv obsoleteNames res options s =
        (Inl (ThrownError
           \<lparr>err_name = ''RetrieveFailed'', err_message = getRetrieveFailureMessage cfg r,
            err_errorCode = None, err_result = None, err_sourceConflictElements = None\<rparr>), s)"
    by (simp add: postRetrieve_def processResults_def bnd_def ret_def throw_def)
next
  assume "res = None"
  then show "postRetrieve cfg sv obsoleteNames res options s = (Inr None, s)"
    by (simp add: postRetrieve_def processResults_def bnd_def ret_def didRetrieveSucceed_def)
qed

theorem retrieve_success_predicate_witness:
  "didRetrieveSucceed (Some ok_result) \<and>
   postRetrieve demo_config (demo_services (Inr []) []) [] (Some ok_result) demo_options ([], ())
     = (Inr (Some \<lparr>inboundFiles = Some (getAllWorkspaceElements demo_config
                                             [''One.cls'', ''Two.cls''])\<rparr>),
        (fst (snd (syncDownSource demo_config (demo_services (Inr []) []) [] (Some ok_result)
                     demo_options ([], ()))) @
         [MaybeRefreshIndex (getAllWorkspaceElements demo_config [''One.cls'', ''Two.cls'']),
          GetSourceMembersFromResult
            (getAllWorkspaceElements demo_config [''One.cls'', ''Two.cls'']),
          UpdateSourceTracking], ())) \<and>
   didRetrieveSucceed (Some broken_result) \<and>
   postRetrieve demo_config (demo_services (Inr []) []) [] (Some broken_result) demo_options
       ([], ())
     = (Inl (ThrownError (demo_error ''unreadable'' None None)),
        ([GetDefinitionProperties (fileProperties broken_result),
          ProcessMdapiFileProperty [] None
            \<lparr>fp_type = ''Broken'', fp_fullName = ''x'', fp_fileName = ''x''\<rparr> []], ())) \<and>
   \<not> didRetrieveSucceed (Some failed_result) \<and>
   postRetrieve demo_config (demo_services (Inr []) []) [] (Some failed_result) demo_options
       ([], ())
     = (Inl (ThrownError
           \<lparr>err_name = ''RetrieveFailed'', err_message = ''Failed'',
            err_errorCode = None, err_result = None, err_sourceConflictElements = None\<rparr>),
        ([], ())) \<and>
   postRetrieve demo_config (demo_services (Inr []) []) [] None demo_options ([], ())
     = (Inr None, ([], ()))"
proof -
  let ?sv = "demo_services (Inr []) []"
  let ?run = "syncDownSource demo_config ?sv [] (Some ok_result) demo_options ([], ())"
  have ok: "didRetrieveSucceed (Some ok_result)"
    and broken: "didRetrieveSucceed (Some broken_result)"
    and failed: "\<not> didRetrieveSucceed (Some failed_result)"
    by (simp_all add: didRetrieveSucceed_def isNil_fileProps_def isArray_def ok_result_def
        broken_result_def failed_result_def)
  have sync: "?run = (Inr [''One.cls'', ''Two.cls''], (fst (snd ?run), ()))"
    by (simp add: prog_defs pull_defs demo_defs)
  have tracking:
    "maybeRefreshIndex ?sv (getAllWorkspaceElements demo_config [''One.cls'', ''Two.cls'']) ()
       = (Inr (), ())"
    "getSourceMembersFromResult ?sv
       (getAllWorkspaceElements demo_config [''One.cls'', ''Two.cls'']) () = (Inr (), ())"
    "updateSourceTracking ?sv () = (Inr (), ())"
    by (simp_all add: demo_services_def)
  have sync_broken:
    "syncDownSource demo_config ?sv [] (Some broken_result) demo_options ([], ()) =
       (Inl (ThrownError (demo_error ''unreadable'' None None)),
        ([GetDefinitionProperties (fileProperties broken_result),
          ProcessMdapiFileProperty [] None
            \<lparr>fp_type = ''Broken'', fp_fullName = ''x'', fp_fileName = ''x''\<rparr> []], ()))"
    by (simp add: prog_defs pull_defs demo_defs)
  have msg: "getRetrieveFailureMessage demo_config failed_result = ''Failed''"
    by (simp add: demo_config_def failed_result_def)
  note t = retrieve_success_predicate
  from t [of "Some ok_result" demo_config ?sv "[]" demo_options "([], ())"
             "[''One.cls'', ''Two.cls'']" "fst (snd ?run)" "()" "()" "()" "()" "()" "()" "()",
          THEN conjunct2, THEN conjunct1, rule_format] ok sync tracking
  have c1: "postRetrieve demo_config ?sv [] (Some ok_result) demo_options ([], ())
     = (Inr (Some \<lparr>inboundFiles = Some (getAllWorkspaceElements demo_config
                                             [''One.cls'', ''Two.cls''])\<rparr>),
        (fst (snd ?run) @
         [MaybeRefreshIndex (getAllWorkspaceElements demo_config [''One.cls'', ''Two.cls'']),
          GetSourceMembersFromResult
            (getAllWorkspaceElements demo_config [''One.cls'', ''Two.cls'']),
          UpdateSourceTracking], ()))"
    by simp
  from t [where res = "Some broken_result" and cfg = demo_config and sv = ?sv
            and obsoleteNames = "[]" and options = demo_options and s = "([], ())",
          THEN conjunct2, THEN conjunct2, THEN conjunct1, rule_format] broken sync_broken
  have c2: "postRetrieve demo_config ?sv [] (Some broken_result) demo_options ([], ())
     = (Inl (ThrownError (demo_error ''unreadable'' None None)),
        ([GetDefinitionProperties (fileProperties broken_result),
          ProcessMdapiFileProperty [] None
            \<lparr>fp_type = ''Broken'', fp_fullName = ''x'', fp_fileName = ''x''\<rparr> []], ()))"
    by simp
  from t [where res = "Some failed_result" and r = failed_result and cfg = demo_config
            and sv = ?sv and obsoleteNames = "[]" and options = demo_options and s = "([], ())",
          THEN conjunct2, THEN conjunct2, THEN conjunct2, THEN conjunct1, rule_format]
       failed msg
  have c3: "postRetrieve demo_config ?sv [] (Some failed_result) demo_options ([], ())
     = (Inl (ThrownError
           \<lparr>err_name = ''RetrieveFailed'', err_message = ''Failed'',
            err_errorCode = None, err_result = None, err_sourceConflictElements = None\<rparr>),
        ([], ()))"
    by simp
  from t [where res = None and cfg = demo_config
            and sv = ?sv and obsoleteNames = "[]" and options = demo_options and s = "([], ())",
          THEN conjunct2, THEN conjunct2, THEN conjunct2, THEN conjunct2, rule_format]
  have c4: "postRetrieve demo_config ?sv [] None demo_options ([], ()) = (Inr None, ([], ()))"
    by simp
  from ok broken failed c1 c2 c3 c4 show ?thesis
    by simp
qed

theorem retrieve_success_predicate_counterexample:
  "\<not> didRetrieveSucceed (Some empty_messages_result) \<and>
   messages empty_messages_result = Some [] \<and>
   fst (postRetrieve demo_config (demo_services (Inr []) []) [] None demo_options ([], ()))
     = Inr None"
  by (simp add: prog_defs pull_defs demo_defs)

text \<open>
  C4, as the code has it. For an empty manifest the retrieve call is skipped: without
  obsolete names the result stays \<open>undefined\<close> (and the \<open>try\<close> block of an empty package
  returns \<open>undefined\<close> without any call), with obsolete names the succeeded result with no
  file properties is synthesized. For any other manifest the retrieve is called once, with
  the default options overridden by the target directory, the manifest file and the wait
  of the options, and the result is what the call returned or the \<open>result\<close> of the error
  it threw. The wait of the options is the caller's, or the configured default when the
  caller's is not a number.
\<close>

theorem gateway_only_for_nonempty_manifest:
  "(mf_empty mf \<and> obsoleteNames = [] \<longrightarrow>
      retrieveOrSynthesize cfg sv obsoleteNames opts mf s = (Inr None, s)) \<and>
   (mf_empty mf \<and> obsoleteNames \<noteq> [] \<longrightarrow>
      retrieveOrSynthesize cfg sv obsoleteNames opts mf s =
        (Inr (Some \<lparr>success = True, status = ''Succeeded'', messages = None,
                     fileProperties = FPArray []\<rparr>), s)) \<and>
   (\<not> mf_empty mf \<longrightarrow>
      retrieveOrSynthesize cfg sv obsoleteNames opts mf (tr, w) =
        (case retrieve sv
                ((getDefaultOptions cfg)
                   \<lparr>ro_retrievetargetdir := retrievetargetdir opts,
                    ro_unpackaged := mf_file mf, ro_wait := wait opts\<rparr>) w of
           (Inl err, w') \<Rightarrow>
             (Inr (err_result err),
              (tr @ [Retrieve ((getDefaultOptions cfg)
                       \<lparr>ro_retrievetargetdir := retrievetargetdir opts,
                        ro_unpackaged := mf_file mf, ro_wait := wait opts\<rparr>)], w'))
         | (Inr res, w') \<Rightarrow>
             (Inr res,
              (tr @ [Retrieve ((getDefaultOptions cfg)
                       \<lparr>ro_retrievetargetdir := retrievetargetdir opts,
                        ro_unpackaged := mf_file mf, ro_wait := wait opts\<rparr>)], w')))) \<and>
   (pkg_isEmpty pkg \<and> obsoleteNames = [] \<longrightarrow>
      tryBlock cfg sv obsoleteNames opts pkg s = (Inr None, s)) \<and>
   wait (defaultWait cfg options) =
     (case wait options of None \<Rightarrow> defaultSrcWaitMinutes cfg | Some n \<Rightarrow> Some n)"
proof (intro conjI impI)
  assume "mf_empty mf \<and> obsoleteNames = []"
  then show "retrieveOrSynthesize cfg sv obsoleteNames opts mf s = (Inr None, s)"
    by (simp add: retrieveOrSynthesize_def ret_def)
next
  assume "mf_empty mf \<and> obsoleteNames \<noteq> []"
  then show "retrieveOrSynthesize cfg sv obsoleteNames opts mf s =
        (Inr (Some \<lparr>success = True, status = ''Succeeded'', messages = None,
                     fileProperties = FPArray []\<rparr>), s)"
    by (simp add: retrieveOrSynthesize_def ret_def)
next
  assume "\<not> mf_empty mf"
  then show "retrieveOrSynthesize cfg sv obsoleteNames opts mf (tr, w) =
        (case retrieve sv
                ((getDefaultOptions cfg)
                   \<lparr>ro_retrievetargetdir := retrievetargetdir opts,
                    ro_unpackaged := mf_file mf, ro_wait := wait opts\<rparr>) w of
           (Inl err, w') \<Rightarrow>
             (Inr (err_result err),
              (tr @ [Retrieve ((getDefaultOptions cfg)
                       \<lparr>ro_retrievetargetdir := retrievetargetdir opts,
                        ro_unpackaged := mf_file mf, ro_wait := wait opts\<rparr>)], w'))
         | (Inr res, w') \<Rightarrow>
             (Inr res,
              (tr @ [Retrieve ((getDefaultOptions cfg)
                       \<lparr>ro_retrievetargetdir := retrievetargetdir opts,
                        ro_unpackaged := mf_file mf, ro_wait := wait opts\<rparr>)], w')))"
    by (simp add: retrieveOrSynthesize_def Let_def catchWith_def call_def ret_def
        thrown_result_def split: prod.splits sum.splits)
next
  assume "pkg_isEmpty pkg \<and> obsoleteNames = []"
  then show "tryBlock cfg sv obsoleteNames opts pkg s = (Inr None, s)"
    by (simp add: tryBlock_def createPackageManifest_def retrieveOrSynthesize_def
        postRetrieve_def processResults_def didRetrieveSucceed_def Let_def bnd_def ret_def)
next
  show "wait (defaultWait cfg options) =
     (case wait options of None \<Rightarrow> defaultSrcWaitMinutes cfg | Some n \<Rightarrow> Some n)"
    by (simp add: defaultWait_def split: option.splits)
qed

theorem gateway_only_for_nonempty_manifest_witness:
  "retrieveOrSynthesize demo_config (demo_services (Inr []) []) [] demo_options
      \<lparr>mf_empty = True, mf_file = None\<rparr> ([], ()) = (Inr None, ([], ())) \<and>
   retrieveOrSynthesize demo_config (demo_services (Inr []) [])
      [\<lparr>on_fullName = ''Gone'', on_type = ''ApexClass''\<rparr>] demo_options
      \<lparr>mf_empty = True, mf_file = None\<rparr> ([], ()) =
     (Inr (Some \<lparr>success = True, status = ''Succeeded'', messages = None,
                  fileProperties = FPArray []\<rparr>), ([], ())) \<and>
   retrieveOrSynthesize demo_config (demo_services (Inr []) []) []
      (demo_options\<lparr>wait := Some 33, retrievetargetdir := Some ''/tmp/pull''\<rparr>)
      \<lparr>mf_empty = False, mf_file = Some ''B''\<rparr> ([], ()) =
     (Inr (Some failed_result),
      ([Retrieve \<lparr>ro_retrievetargetdir = Some ''/tmp/pull'', ro_unpackaged = Some ''B'',
                  ro_wait = Some 33, ro_defaults = []\<rparr>], ())) \<and>
   tryBlock demo_config (demo_services (Inr []) []) [] demo_options
      (snd (empty_package ''E'')) ([], ()) = (Inr None, ([], ())) \<and>
   wait (defaultWait demo_config demo_options) = Some 33"
proof -
  let ?sv = "demo_services (Inr []) []"
  let ?E = "\<lparr>mf_empty = True, mf_file = None\<rparr>"
  let ?B = "\<lparr>mf_empty = False, mf_file = Some ''B''\<rparr>"
  let ?gone = "[\<lparr>on_fullName = ''Gone'', on_type = ''ApexClass''\<rparr>]"
  let ?opts = "demo_options\<lparr>wait := Some 33, retrievetargetdir := Some ''/tmp/pull''\<rparr>"
  note t = gateway_only_for_nonempty_manifest
  have e: "mf_empty ?E \<and> ([] :: obsoleteName list) = []"
    and g: "mf_empty ?E \<and> ?gone \<noteq> []"
    and b: "\<not> mf_empty ?B"
    and p: "pkg_isEmpty (snd (empty_package ''E'')) \<and> ([] :: obsoleteName list) = []"
    by (simp_all add: empty_package_def)
  from t [where mf = ?E and obsoleteNames = "[]" and cfg = demo_config and sv = ?sv
            and opts = demo_options and s = "([], ())",
          THEN conjunct1, rule_format, OF e]
  have c1: "retrieveOrSynthesize demo_config ?sv [] demo_options ?E ([], ()) =
      (Inr None, ([], ()))" .
  from t [where mf = ?E and obsoleteNames = ?gone and cfg = demo_config and sv = ?sv
            and opts = demo_options and s = "([], ())",
          THEN conjunct2, THEN conjunct1, rule_format, OF g]
  have c2: "retrieveOrSynthesize demo_config ?sv ?gone demo_options ?E ([], ()) =
     (Inr (Some \<lparr>success = True, status = ''Succeeded'', messages = None,
                  fileProperties = FPArray []\<rparr>), ([], ()))" .
  from t [where mf = ?B and obsoleteNames = "[]" and cfg = demo_config and sv = ?sv
            and opts = ?opts and tr = "[]" and w = "()",
          THEN conjunct2, THEN conjunct2, THEN conjunct1, rule_format, OF b]
  have c3: "retrieveOrSynthesize demo_config ?sv [] ?opts ?B ([], ()) =
     (Inr (Some failed_result),
      ([Retrieve \<lparr>ro_retrievetargetdir = Some ''/tmp/pull'', ro_unpackaged = Some ''B'',
                  ro_wait = Some 33, ro_defaults = []\<rparr>], ()))"
    by (simp add: demo_services_def demo_config_def demo_retrieve_def demo_error_def
        demo_options_def)
  from t [where pkg = "snd (empty_package ''E'')" and obsoleteNames = "[]"
            and cfg = demo_config and sv = ?sv and opts = demo_options and s = "([], ())",
          THEN conjunct2, THEN conjunct2, THEN conjunct2, THEN conjunct1, rule_format, OF p]
  have c4: "tryBlock demo_config ?sv [] demo_options (snd (empty_package ''E'')) ([], ()) =
      (Inr None, ([], ()))" .
  from t [where cfg = demo_config and options = demo_options,
          THEN conjunct2, THEN conjunct2, THEN conjunct2, THEN conjunct2]
  have c5: "wait (defaultWait demo_config demo_options) = Some 33"
    by (simp add: demo_config_def demo_options_def)
  from c1 c2 c3 c4 c5 show ?thesis
    by simp
qed

theorem empty_manifest_no_result_counterexample:
  "fst (retrieveOrSynthesize demo_config (demo_services (Inr []) []) [] demo_options
          \<lparr>mf_empty = True, mf_file = None\<rparr> ([], ()))
     \<noteq> Inr (Some \<lparr>success = True, status = ''Succeeded'', messages = None,
                   fileProperties = FPArray []\<rparr>) \<and>
   fst (retrieveOrSynthesize demo_config (demo_services (Inr []) []) [] demo_options
          \<lparr>mf_empty = True, mf_file = None\<rparr> ([], ())) = Inr None \<and>
   fst (pullPackage demo_config (demo_services (Inr []) []) [] demo_options
          (empty_package ''E'') ([], ())) = Inr None"
  by (simp add: prog_defs pull_defs demo_defs Let_def)



text \<open>
  C6, as the code has it. When the status query throws, \<open>doPull\<close> throws after the two
  calls made so far, and nothing else is called. The value thrown carries the text of the
  message \<open>NonScratchOrgPull\<close> when the error code is \<open>INVALID_TYPE\<close> and the message of
  the error otherwise; it is not named \<open>UnsupportedEnvironment\<close>.
\<close>

theorem status_failure_message:
  assumes "\<not> forceoverwrite options"
    and "statusApiCreate sv w = (Inr u1, w1)"
    and "doStatus sv w1 = (Inl err, w2)"
  shows "\<exists>t. doPull cfg sv obsoleteNames options (tr, w) =
               (Inl t, (tr @ [StatusApiCreate, DoStatus], w2)) \<and>
             thrown_text t =
               Some (if err_errorCode err = Some ''INVALID_TYPE''
                     then getMessage cfg ''NonScratchOrgPull'' else err_message err) \<and>
             thrown_name t \<noteq> Some ''UnsupportedEnvironment''"
proof -
  from assms(1) have nf: "\<not> forceoverwrite (defaultWait cfg options)"
    by (simp add: forceoverwrite_defaultWait)
  have "doPull cfg sv obsoleteNames options (tr, w) =
      (Inl (statusErrorMessage cfg (ThrownError err)), (tr @ [StatusApiCreate, DoStatus], w2))"
    by (rule doPull_conflict_check_fails)
      (rule checkForConflicts_status_fails [OF nf assms(2,3)])
  then show ?thesis
    by (simp add: statusErrorMessage_def thrown_text_def thrown_name_def)
qed

theorem status_failure_message_witness:
  "\<not> forceoverwrite demo_options \<and>
   doStatus (demo_services (Inl (demo_error ''sObject type SourceMember is not supported''
       (Some ''INVALID_TYPE'') None)) []) () =
     (Inl (demo_error ''sObject type SourceMember is not supported''
       (Some ''INVALID_TYPE'') None), ()) \<and>
   (\<exists>t. doPull demo_config
           (demo_services (Inl (demo_error ''sObject type SourceMember is not supported''
              (Some ''INVALID_TYPE'') None)) []) [] demo_options ([], ()) =
          (Inl t, ([StatusApiCreate, DoStatus], ())) \<and>
        thrown_text t = Some ''NonScratchOrgPull'' \<and>
        thrown_name t \<noteq> Some ''UnsupportedEnvironment'')"
proof -
  let ?err = "demo_error ''sObject type SourceMember is not supported''
       (Some ''INVALID_TYPE'') None"
  let ?sv = "demo_services (Inl ?err) []"
  have nf: "\<not> forceoverwrite demo_options"
    by (simp add: demo_options_def)
  have a: "statusApiCreate ?sv () = (Inr (), ())"
    and b: "doStatus ?sv () = (Inl ?err, ())"
    by (simp_all add: demo_services_def)
  have c: "err_errorCode ?err = Some ''INVALID_TYPE''"
    and d: "getMessage demo_config ''NonScratchOrgPull'' = ''NonScratchOrgPull''"
    by (simp_all add: demo_error_def demo_config_def)
  from status_failure_message [OF nf a b, of demo_config "[]" "[]"] c d nf b
  show ?thesis by simp
qed

theorem status_failure_name_counterexample:
  "thrown_name (projl (fst (doPull demo_config
       (demo_services (Inl (demo_error ''sObject type SourceMember is not supported''
          (Some ''INVALID_TYPE'') None)) []) [] demo_options ([], ()))))
     \<noteq> Some ''UnsupportedEnvironment'' \<and>
   fst (doPull demo_config
       (demo_services (Inl (demo_error ''sObject type SourceMember is not supported''
          (Some ''INVALID_TYPE'') None)) []) [] demo_options ([], ()))
     = Inl (ThrownString ''NonScratchOrgPull'')"
  by (simp add: prog_defs pull_defs demo_defs Let_def thrown_name_def)








end
